theory Spec2Isabelle
  imports Complex_Main
begin

section \<open>Multi-factor attendance verification: a shallow embedding\<close>

text \<open>
  The development follows three modules of the backend:
  \<^item> \<^verbatim>\<open>app/services/verification.py\<close> (the verification engine),
  \<^item> \<^verbatim>\<open>app/services/anomaly.py\<close> with \<^verbatim>\<open>app/ml/face_recognition.py\<close>
    (the anomaly detector and the duplicate-face scan),
  \<^item> \<^verbatim>\<open>app/services/attendance.py\<close> (the attendance ledger).

  Conventions of the embedding.
  \<^item> Python \<^verbatim>\<open>float\<close> is idealised as \<^typ>\<open>real\<close>: the weighted sum and the comparisons
    are exact, rounding is not modelled.
  \<^item> \<^verbatim>\<open>Optional[str]\<close> and \<^verbatim>\<open>Optional[bytes]\<close> are \<^typ>\<open>string option\<close>; the
    truth value Python gives such a value in a condition is \<open>truthy\<close>.
  \<^item> The biometric comparators of the verification engine are external routines; they are
    fields of the service record, total functions because each of them catches its own
    exceptions in the source.
  \<^item> Database tables are lists of rows in insertion order; a row class is a record whose
    fields carry a short prefix of the class (\<open>s_\<close>, \<open>se_\<close>, \<open>att_\<close>, \<open>anom_\<close>,
    \<open>req_\<close>), since several classes share column names.
\<close>

subsection \<open>Python values\<close>

type_synonym bytes = string

fun value_of :: "'a list option \<Rightarrow> 'a list" where
  "value_of None = []"
| "value_of (Some xs) = xs"

text \<open>\<^verbatim>\<open>if x:\<close> for an optional string or byte string: neither \<^verbatim>\<open>None\<close> nor empty.\<close>

fun truthy :: "'a list option \<Rightarrow> bool" where
  "truthy None = False"
| "truthy (Some xs) = (xs \<noteq> [])"

text \<open>\<^verbatim>\<open>sep.join(parts)\<close>.\<close>

fun join :: "string \<Rightarrow> string list \<Rightarrow> string" where
  "join sep [] = []"
| "join sep [x] = x"
| "join sep (x # y # ys) = x @ sep @ join sep (y # ys)"

text \<open>\<^verbatim>\<open>str(n)\<close> for a natural number, as an f-string prints it.\<close>

definition digit_char :: "nat \<Rightarrow> char" where
  "digit_char d =
     (if d = 0 then CHR ''0'' else if d = 1 then CHR ''1'' else if d = 2 then CHR ''2''
      else if d = 3 then CHR ''3'' else if d = 4 then CHR ''4'' else if d = 5 then CHR ''5''
      else if d = 6 then CHR ''6'' else if d = 7 then CHR ''7'' else if d = 8 then CHR ''8''
      else CHR ''9'')"

fun str_nat :: "nat \<Rightarrow> string" where
  "str_nat n = (if n < 10 then [digit_char n] else str_nat (n div 10) @ [digit_char (n mod 10)])"

declare str_nat.simps [simp del]

subsection \<open>The verification engine (\<^verbatim>\<open>services/verification.py\<close>)\<close>

record VerificationResult =
  success :: bool
  face_verified :: bool
  face_confidence :: real
  id_card_verified :: bool
  id_card_confidence :: real
  fingerprint_verified :: bool
  overall_confidence :: real
  verification_method :: string
  message :: string
  anomaly_detected :: bool
  anomaly_reason :: "string option"

text \<open>The dataclass constructor with its defaults, \<^verbatim>\<open>VerificationResult(success=s)\<close>.\<close>

definition VerificationResult_init :: "bool \<Rightarrow> VerificationResult" where
  "VerificationResult_init s =
     \<lparr> success = s, face_verified = False, face_confidence = 0,
       id_card_verified = False, id_card_confidence = 0,
       fingerprint_verified = False, overall_confidence = 0,
       verification_method = [], message = [],
       anomaly_detected = False, anomaly_reason = None \<rparr>"

text \<open>
  \<^verbatim>\<open>VerificationService.__init__\<close>: the three comparator services (each through the one
  method the engine calls) and the threshold read from the settings. The weights are
  literals of the constructor.
\<close>

type_synonym id_data = "(string \<times> string option) list"

record VerificationService =
  compare_faces_from_base64 :: "bytes \<Rightarrow> string \<Rightarrow> bool \<times> real"
  validate_id_card :: "string \<Rightarrow> string \<Rightarrow> string \<Rightarrow> bool \<times> real \<times> id_data"
  fingerprint_service_verify :: "string \<Rightarrow> string \<Rightarrow> bool \<times> real"
  min_face_confidence :: real

definition face_weight :: real where "face_weight = 0.5"
definition id_weight :: real where "id_weight = 0.3"
definition fingerprint_weight :: real where "fingerprint_weight = 0.2"

text \<open>A comparator invocation, logged in call order with its arguments.\<close>

datatype comparator_call =
    FaceComparator bytes string
  | IdCardComparator string string string
  | FingerprintComparator string string

definition verify_face ::
  "VerificationService \<Rightarrow> string \<Rightarrow> bytes \<Rightarrow> (bool \<times> real) \<times> comparator_call list" where
  "verify_face self face_image_base64 stored_embedding =
     (if stored_embedding = [] then ((False, 0), [])
      else (compare_faces_from_base64 self stored_embedding face_image_base64,
            [FaceComparator stored_embedding face_image_base64]))"

definition verify_id_card ::
  "VerificationService \<Rightarrow> string \<Rightarrow> string \<Rightarrow> string
     \<Rightarrow> (bool \<times> real) \<times> comparator_call list" where
  "verify_id_card self id_card_image_base64 expected_roll_no expected_name =
     (case validate_id_card self id_card_image_base64 expected_roll_no expected_name of
        (is_valid, confidence, _) \<Rightarrow>
          ((is_valid, confidence),
           [IdCardComparator id_card_image_base64 expected_roll_no expected_name]))"

definition verify_fingerprint ::
  "VerificationService \<Rightarrow> string \<Rightarrow> string \<Rightarrow> (bool \<times> real) \<times> comparator_call list" where
  "verify_fingerprint self fingerprint_token stored_hash =
     (if stored_hash = [] then ((False, 0), [])
      else (fingerprint_service_verify self fingerprint_token stored_hash,
            [FingerprintComparator fingerprint_token stored_hash]))"

definition calculate_overall_confidence :: "real \<Rightarrow> real \<Rightarrow> bool \<Rightarrow> real" where
  "calculate_overall_confidence face_conf id_conf fingerprint_match =
     (let fingerprint_confidence = (if fingerprint_match then 0.95 else 0.0);
          overall = face_conf * face_weight
                  + id_conf * id_weight
                  + fingerprint_confidence * fingerprint_weight
      in min overall 1.0)"

text \<open>
  \<^verbatim>\<open>verify_student\<close>. The local variables \<^verbatim>\<open>face_verified\<close>, \<^verbatim>\<open>face_confidence\<close>,
  \<^verbatim>\<open>id_verified\<close>, \<^verbatim>\<open>id_confidence\<close> and \<^verbatim>\<open>fingerprint_verified\<close> of the source are
  \<open>face_ok\<close>, \<open>face_conf\<close>, \<open>id_ok\<close>, \<open>id_conf\<close> and \<open>fingerprint_ok\<close> here (the
  source's names are the fields of the result).

  The last section of the function (\<^verbatim>\<open># Determine success based on available verification
  methods\<close>) is \<open>determine_success\<close>, a function of the local variables it reads and of
  the result built so far.
\<close>

definition determine_success ::
  "VerificationService \<Rightarrow> string list \<Rightarrow> bool \<Rightarrow> real \<Rightarrow> bool \<Rightarrow> bool
     \<Rightarrow> VerificationResult \<Rightarrow> VerificationResult" where
  "determine_success self verification_methods face_ok face_conf id_ok fingerprint_ok result =
     (if verification_methods = [] then
        result\<lparr>success := False,
               message := ''No verification data provided'',
               anomaly_detected := True,
               anomaly_reason := Some ''No biometric data provided for verification''\<rparr>
      else if length verification_methods = 1 then
        (let result =
               (if ''face'' \<in> set verification_methods then
                  result\<lparr>success := (face_ok \<and> face_conf \<ge> min_face_confidence self)\<rparr>
                else if ''id_card'' \<in> set verification_methods then
                  result\<lparr>success := id_ok\<rparr>
                else if ''fingerprint'' \<in> set verification_methods then
                  result\<lparr>success := fingerprint_ok\<rparr>
                else result);
             result =
               (if \<not> success result then
                  result\<lparr>anomaly_detected := True,
                         anomaly_reason :=
                           Some (''Single factor verification failed: ''
                                 @ hd verification_methods)\<rparr>
                else result)
         in result\<lparr>message :=
              ''Single factor ('' @ hd verification_methods @ '') verification''\<rparr>)
      else if length verification_methods = 2 then
        (let passed = length (filter
               (\<lambda>m. (m = ''face'' \<and> face_ok)
                  \<or> (m = ''id_card'' \<and> id_ok)
                  \<or> (m = ''fingerprint'' \<and> fingerprint_ok)) verification_methods);
             result = result\<lparr>success := (passed = 2)\<rparr>;
             result =
               (if \<not> success result then
                  result\<lparr>anomaly_detected := True,
                         anomaly_reason :=
                           Some (''Two-factor verification failed: only ''
                                 @ str_nat passed @ ''/2 passed'')\<rparr>
                else result)
         in result\<lparr>message :=
              ''Two-factor verification: '' @ str_nat passed @ ''/2 passed''\<rparr>)
      else
        (let all_passed = (face_ok \<and> id_ok \<and> fingerprint_ok);
             result = result\<lparr>success := all_passed\<rparr>;
             result =
               (if \<not> all_passed then
                  (let failed = [];
                       failed = (if \<not> face_ok then failed @ [''face''] else failed);
                       failed = (if \<not> id_ok then failed @ [''id_card''] else failed);
                       failed = (if \<not> fingerprint_ok then failed @ [''fingerprint'']
                                 else failed)
                   in result\<lparr>anomaly_detected := True,
                            anomaly_reason :=
                              Some (''Multi-factor verification failed: ''
                                    @ join '', '' failed)\<rparr>)
                else result)
         in result\<lparr>message := ''Three-factor verification''
              @ (if all_passed then '' passed'' else '' failed'')\<rparr>))"

text \<open>
  The function itself. The second component of its value is the log of the comparator
  calls the run made, in call order.
\<close>

definition verify_student ::
  "VerificationService \<Rightarrow> string \<Rightarrow> string \<Rightarrow> bytes option \<Rightarrow> string option
     \<Rightarrow> string option \<Rightarrow> string option \<Rightarrow> string option
     \<Rightarrow> VerificationResult \<times> comparator_call list" where
  "verify_student self student_roll_no student_name stored_face_embedding
       stored_fingerprint_hash face_image_base64 id_card_image_base64 fingerprint_token =
     (let result = VerificationResult_init False;
          verification_methods = [];
          calls = [];
          (face_ok, face_conf, result, verification_methods, calls) =
            (if truthy face_image_base64 \<and> truthy stored_face_embedding then
               (case verify_face self (value_of face_image_base64)
                       (value_of stored_face_embedding) of
                  ((v, c), made) \<Rightarrow>
                    (v, c, result\<lparr>face_verified := v, face_confidence := c\<rparr>,
                     verification_methods @ [''face''], calls @ made))
             else (False, 0, result, verification_methods, calls));
          (id_ok, id_conf, result, verification_methods, calls) =
            (if truthy id_card_image_base64 then
               (case verify_id_card self (value_of id_card_image_base64)
                       student_roll_no student_name of
                  ((v, c), made) \<Rightarrow>
                    (v, c, result\<lparr>id_card_verified := v, id_card_confidence := c\<rparr>,
                     verification_methods @ [''id_card''], calls @ made))
             else (False, 0, result, verification_methods, calls));
          (fingerprint_ok, result, verification_methods, calls) =
            (if truthy fingerprint_token \<and> truthy stored_fingerprint_hash then
               (case verify_fingerprint self (value_of fingerprint_token)
                       (value_of stored_fingerprint_hash) of
                  ((v, _), made) \<Rightarrow>
                    (v, result\<lparr>fingerprint_verified := v\<rparr>,
                     verification_methods @ [''fingerprint''], calls @ made))
             else (False, result, verification_methods, calls));
          result = result\<lparr>overall_confidence :=
                     calculate_overall_confidence face_conf id_conf fingerprint_ok\<rparr>;
          result = result\<lparr>verification_method :=
                     (if verification_methods \<noteq> [] then join ''+'' verification_methods
                      else ''none'')\<rparr>;
          result = determine_success self verification_methods face_ok face_conf id_ok
                     fingerprint_ok result
      in (result, calls))"

subsection \<open>The tiered policy, in the words of the specification\<close>

text \<open>
  A factor outcome as the specification's data model has it. The three outcomes of a call
  are read off the arguments of \<open>verify_student\<close>: a factor is applicable when the guard
  of its block in the source holds, and its verdict and confidence are what its comparator
  reports on the arguments of the call.
\<close>

record FactorOutcome =
  fo_applicable :: bool
  fo_verified :: bool
  fo_confidence :: real

definition face_outcome ::
  "VerificationService \<Rightarrow> bytes option \<Rightarrow> string option \<Rightarrow> FactorOutcome" where
  "face_outcome self stored_face_embedding face_image_base64 =
     (let r = compare_faces_from_base64 self (value_of stored_face_embedding)
                (value_of face_image_base64)
      in \<lparr> fo_applicable = (truthy face_image_base64 \<and> truthy stored_face_embedding),
           fo_verified = fst r, fo_confidence = snd r \<rparr>)"

definition id_card_outcome ::
  "VerificationService \<Rightarrow> string \<Rightarrow> string \<Rightarrow> string option \<Rightarrow> FactorOutcome" where
  "id_card_outcome self student_roll_no student_name id_card_image_base64 =
     (let r = validate_id_card self (value_of id_card_image_base64)
                student_roll_no student_name
      in \<lparr> fo_applicable = truthy id_card_image_base64,
           fo_verified = fst r, fo_confidence = fst (snd r) \<rparr>)"

definition fingerprint_outcome ::
  "VerificationService \<Rightarrow> string option \<Rightarrow> string option \<Rightarrow> FactorOutcome" where
  "fingerprint_outcome self stored_fingerprint_hash fingerprint_token =
     (let r = fingerprint_service_verify self (value_of fingerprint_token)
                (value_of stored_fingerprint_hash)
      in \<lparr> fo_applicable = (truthy fingerprint_token \<and> truthy stored_fingerprint_hash),
           fo_verified = fst r, fo_confidence = snd r \<rparr>)"

text \<open>
  The success policy of the specification, tiered by the number of applicable factors.
\<close>

definition tiered_policy ::
  "real \<Rightarrow> FactorOutcome \<Rightarrow> FactorOutcome \<Rightarrow> FactorOutcome \<Rightarrow> bool" where
  "tiered_policy min_conf face doc finger =
     (let n = length (filter fo_applicable [face, doc, finger]) in
      if n = 0 then False
      else if n = 1 then
        (if fo_applicable face then fo_verified face \<and> fo_confidence face \<ge> min_conf
         else if fo_applicable doc then fo_verified doc
         else fo_verified finger)
      else if n = 2 then list_all fo_verified (filter fo_applicable [face, doc, finger])
      else fo_verified face \<and> fo_verified doc \<and> fo_verified finger)"

text \<open>
  The names \<open>verify_student\<close> appends to \<^verbatim>\<open>verification_methods\<close>, given which of the
  three guarded blocks ran.
\<close>

definition applicable_methods :: "bool \<Rightarrow> bool \<Rightarrow> bool \<Rightarrow> string list" where
  "applicable_methods face_ran id_card_ran fingerprint_ran =
     (if face_ran then [''face''] else [])
     @ (if id_card_ran then [''id_card''] else [])
     @ (if fingerprint_ran then [''fingerprint''] else [])"

subsection \<open>Rows and tables (\<^verbatim>\<open>app/models\<close>, \<^verbatim>\<open>app/schemas\<close>)\<close>

text \<open>
  Only the columns the services read or write are kept (no e-mail, department, course,
  timetable or \<^verbatim>\<open>created_at\<close>/\<^verbatim>\<open>updated_at\<close> columns). A \<^verbatim>\<open>datetime\<close> is a number of
  seconds. Primary keys come from a sequence that the store record carries.
\<close>

type_synonym datetime = int

record Student =
  s_id :: int
  s_roll_no :: string
  s_name :: string
  s_college_id :: string
  s_face_embedding :: "bytes option"
  s_fingerprint_hash :: "string option"
  s_id_card_data :: "string option"
  s_is_enrolled :: bool

record Session =
  se_id :: int
  se_is_active :: bool

datatype AttendanceStatus = PRESENT | ABSENT | LATE | EXCUSED

record Attendance =
  att_id :: int
  att_student_id :: int
  att_session_id :: int
  att_status :: AttendanceStatus
  att_face_confidence :: "real option"
  att_id_card_confidence :: "real option"
  att_fingerprint_match :: "bool option"
  att_overall_confidence :: real
  att_verification_method :: string
  att_device_info :: "string option"
  att_ip_address :: "string option"
  att_marked_at :: datetime

record AnomalyLog =
  anom_id :: int
  anom_student_id :: "int option"
  anom_session_id :: "int option"
  anom_anomaly_type :: string
  anom_severity :: string
  anom_reason :: string
  anom_details :: "string option"
  anom_is_resolved :: bool
  anom_resolved_by :: "int option"
  anom_resolution_notes :: "string option"
  anom_resolved_at :: "datetime option"
  anom_attempt_time :: datetime
  anom_ip_address :: "string option"
  anom_device_info :: "string option"

record AttendanceMarkRequest =
  req_session_id :: int
  req_student_id :: int
  req_face_image :: "string option"
  req_id_card_image :: "string option"
  req_fingerprint_token :: "string option"
  req_device_info :: "string option"

record store =
  students :: "Student list"
  sessions :: "Session list"
  attendances :: "Attendance list"
  anomaly_logs :: "AnomalyLog list"
  attendance_seq :: int
  anomaly_seq :: int

text \<open>The exceptions of the database layer that the services do not catch.\<close>

datatype error = MultipleResultsFound | IntegrityError

text \<open>\<^verbatim>\<open>Result.scalar_one_or_none()\<close>: no row, the one row, or an exception.\<close>

fun scalar_one_or_none :: "'a list \<Rightarrow> error + 'a option" where
  "scalar_one_or_none [] = Inr None"
| "scalar_one_or_none [x] = Inr (Some x)"
| "scalar_one_or_none (x # y # ys) = Inl MultipleResultsFound"

subsection \<open>The attendance ledger (\<^verbatim>\<open>services/attendance.py\<close>)\<close>

definition get_student :: "store \<Rightarrow> int \<Rightarrow> error + Student option" where
  "get_student db student_id =
     scalar_one_or_none (filter (\<lambda>s. s_id s = student_id) (students db))"

definition get_session :: "store \<Rightarrow> int \<Rightarrow> error + Session option" where
  "get_session db session_id =
     scalar_one_or_none (filter (\<lambda>s. se_id s = session_id) (sessions db))"

definition check_existing_attendance ::
  "store \<Rightarrow> int \<Rightarrow> int \<Rightarrow> error + Attendance option" where
  "check_existing_attendance db student_id session_id =
     scalar_one_or_none
       (filter (\<lambda>a. att_student_id a = student_id \<and> att_session_id a = session_id)
          (attendances db))"

text \<open>
  \<^verbatim>\<open>db.add(attendance); await db.flush()\<close> under the table's
  \<^verbatim>\<open>UniqueConstraint("student_id", "session_id")\<close>: the flush raises when the pair is
  already there. The new row takes the next key of the sequence.
\<close>

definition add_attendance :: "store \<Rightarrow> Attendance \<Rightarrow> error + store \<times> Attendance" where
  "add_attendance db attendance =
     (if list_ex (\<lambda>a. att_student_id a = att_student_id attendance
                     \<and> att_session_id a = att_session_id attendance) (attendances db)
      then Inl IntegrityError
      else (let row = attendance\<lparr>att_id := attendance_seq db\<rparr>
            in Inr (db\<lparr>attendances := attendances db @ [row],
                       attendance_seq := attendance_seq db + 1\<rparr>, row)))"

definition add_anomaly :: "store \<Rightarrow> AnomalyLog \<Rightarrow> store \<times> AnomalyLog" where
  "add_anomaly db anomaly =
     (let row = anomaly\<lparr>anom_id := anomaly_seq db\<rparr>
      in (db\<lparr>anomaly_logs := anomaly_logs db @ [row],
              anomaly_seq := anomaly_seq db + 1\<rparr>, row))"

text \<open>\<^verbatim>\<open>AttendanceService._log_anomaly\<close>; \<open>now\<close> is \<^verbatim>\<open>datetime.now(timezone.utc)\<close>.\<close>

definition attendance_log_anomaly ::
  "store \<Rightarrow> int \<Rightarrow> int \<Rightarrow> string \<Rightarrow> string \<Rightarrow> string \<Rightarrow> string option \<Rightarrow> string option
     \<Rightarrow> datetime \<Rightarrow> store \<times> AnomalyLog" where
  "attendance_log_anomaly db student_id session_id anomaly_type reason severity
       ip_address device_info now =
     add_anomaly db
       \<lparr> anom_id = 0,
         anom_student_id = Some student_id,
         anom_session_id = Some session_id,
         anom_anomaly_type = anomaly_type,
         anom_severity = severity,
         anom_reason = reason,
         anom_details = None,
         anom_is_resolved = False,
         anom_resolved_by = None,
         anom_resolution_notes = None,
         anom_resolved_at = None,
         anom_attempt_time = now,
         anom_ip_address = ip_address,
         anom_device_info = device_info \<rparr>"

text \<open>
  An early return of \<open>mark_attendance\<close>:
  \<^verbatim>\<open>AttendanceVerificationResult(success=False, message=m)\<close>. The schema class has the
  fields of \<open>VerificationResult\<close> and the same defaults.
\<close>

type_synonym AttendanceVerificationResult = VerificationResult

definition rejected :: "string \<Rightarrow> AttendanceVerificationResult" where
  "rejected m = (VerificationResult_init False)\<lparr>message := m\<rparr>"

text \<open>
  \<^verbatim>\<open>mark_attendance\<close>. An exception of the database layer ends the call with \<open>Inl\<close>;
  otherwise the value is the store after the call, the attendance row or \<^verbatim>\<open>None\<close>, the
  result returned to the caller, and the log of the comparator calls made.
\<close>

definition mark_attendance ::
  "VerificationService \<Rightarrow> store \<Rightarrow> AttendanceMarkRequest \<Rightarrow> string option \<Rightarrow> datetime
     \<Rightarrow> error + store \<times> Attendance option \<times> AttendanceVerificationResult
           \<times> comparator_call list" where
  "mark_attendance verification_service db request ip_address now =
     (case get_student db (req_student_id request) of
        Inl e \<Rightarrow> Inl e
      | Inr None \<Rightarrow> Inr (db, None, rejected ''Student not found'', [])
      | Inr (Some student) \<Rightarrow>
     (case get_session db (req_session_id request) of
        Inl e \<Rightarrow> Inl e
      | Inr None \<Rightarrow> Inr (db, None, rejected ''Session not found'', [])
      | Inr (Some session) \<Rightarrow>
     if \<not> se_is_active session then
       Inr (db, None, rejected ''Session is not active for attendance marking'', [])
     else
     (case check_existing_attendance db (req_student_id request) (req_session_id request) of
        Inl e \<Rightarrow> Inl e
      | Inr (Some existing) \<Rightarrow>
          Inr (db, None, rejected ''Attendance already marked for this session'', [])
      | Inr None \<Rightarrow>
     if \<not> s_is_enrolled student then
       Inr (db, None,
            rejected ''Student biometrics not enrolled. Please complete enrollment first.'',
            [])
     else
     (case verify_student verification_service (s_roll_no student) (s_name student)
             (s_face_embedding student) (s_fingerprint_hash student)
             (req_face_image request) (req_id_card_image request)
             (req_fingerprint_token request) of
        (verification_result, calls) \<Rightarrow>
     (let result = verification_result;
          db = (if anomaly_detected verification_result then
                  fst (attendance_log_anomaly db (s_id student) (se_id session)
                         ''verification_failed''
                         (if truthy (anomaly_reason verification_result)
                          then value_of (anomaly_reason verification_result)
                          else ''Verification failed'')
                         ''medium'' ip_address (req_device_info request) now)
                else db)
      in if success verification_result then
           (case add_attendance db
                   \<lparr> att_id = 0,
                     att_student_id = s_id student,
                     att_session_id = se_id session,
                     att_status = PRESENT,
                     att_face_confidence =
                       (if face_verified verification_result
                        then Some (face_confidence verification_result) else None),
                     att_id_card_confidence =
                       (if id_card_verified verification_result
                        then Some (id_card_confidence verification_result) else None),
                     att_fingerprint_match = Some (fingerprint_verified verification_result),
                     att_overall_confidence = overall_confidence verification_result,
                     att_verification_method = verification_method verification_result,
                     att_device_info = req_device_info request,
                     att_ip_address = ip_address,
                     att_marked_at = now \<rparr> of
              Inl e \<Rightarrow> Inl e
            | Inr (db, attendance) \<Rightarrow> Inr (db, Some attendance, result, calls))
         else Inr (db, None, result, calls))))))"

text \<open>
  The two rows \<open>mark_attendance\<close> writes, as functions of the verification result: the
  attendance row of a success and the anomaly row of a flagged result (the keys of the
  student and of the session are those of the request, since both rows were looked up by
  them).
\<close>

definition present_row ::
  "store \<Rightarrow> AttendanceMarkRequest \<Rightarrow> string option \<Rightarrow> datetime \<Rightarrow> VerificationResult
     \<Rightarrow> Attendance" where
  "present_row db request ip_address now vr =
     \<lparr> att_id = attendance_seq db,
       att_student_id = req_student_id request,
       att_session_id = req_session_id request,
       att_status = PRESENT,
       att_face_confidence = (if face_verified vr then Some (face_confidence vr) else None),
       att_id_card_confidence =
         (if id_card_verified vr then Some (id_card_confidence vr) else None),
       att_fingerprint_match = Some (fingerprint_verified vr),
       att_overall_confidence = overall_confidence vr,
       att_verification_method = verification_method vr,
       att_device_info = req_device_info request,
       att_ip_address = ip_address,
       att_marked_at = now \<rparr>"

definition failure_row ::
  "store \<Rightarrow> AttendanceMarkRequest \<Rightarrow> string option \<Rightarrow> datetime \<Rightarrow> VerificationResult
     \<Rightarrow> AnomalyLog" where
  "failure_row db request ip_address now vr =
     \<lparr> anom_id = anomaly_seq db,
       anom_student_id = Some (req_student_id request),
       anom_session_id = Some (req_session_id request),
       anom_anomaly_type = ''verification_failed'',
       anom_severity = ''medium'',
       anom_reason = (if truthy (anomaly_reason vr) then value_of (anomaly_reason vr)
                      else ''Verification failed''),
       anom_details = None,
       anom_is_resolved = False,
       anom_resolved_by = None,
       anom_resolution_notes = None,
       anom_resolved_at = None,
       anom_attempt_time = now,
       anom_ip_address = ip_address,
       anom_device_info = req_device_info request \<rparr>"

text \<open>The rows of a student and a session in the attendance table, and the table's
  uniqueness constraint as a predicate on the store.\<close>

definition records_for :: "store \<Rightarrow> int \<Rightarrow> int \<Rightarrow> Attendance list" where
  "records_for db student_id session_id =
     filter (\<lambda>a. att_student_id a = student_id \<and> att_session_id a = session_id)
       (attendances db)"

definition unique_student_session :: "store \<Rightarrow> bool" where
  "unique_student_session db =
     distinct (map (\<lambda>a. (att_student_id a, att_session_id a)) (attendances db))"

subsection \<open>Face recognition (\<^verbatim>\<open>ml/face_recognition.py\<close>)\<close>

text \<open>
  The service in both of its modes: with the \<^verbatim>\<open>face_recognition\<close> library
  (\<^verbatim>\<open>FACE_RECOGNITION_AVAILABLE\<close>, set once when the module is imported) and the fallback,
  which takes its answers from numpy's random generator. The library and decoding routines
  are fields of the service; \<open>None\<close> from \<open>face_locations\<close>, \<open>face_encodings\<close>,
  \<open>deserialize_embedding\<close> (\<^verbatim>\<open>pickle.loads\<close>) or \<open>face_distance\<close> stands for an
  exception, \<open>None\<close> from \<open>decode_base64_image\<close> is the \<^verbatim>\<open>None\<close> it returns itself. The
  state of the random generator is passed explicitly: \<open>random_rand\<close>
  (\<^verbatim>\<open>np.random.rand(128)\<close>) and \<open>random_uniform\<close> (\<^verbatim>\<open>np.random.uniform(0.7, 0.99)\<close>)
  return their draw with the next state, and every function that may draw takes the state
  and returns it. Nothing is assumed of the values drawn.
\<close>

type_synonym image = "nat list"
type_synonym embedding = "real list"
type_synonym face_location = "int \<times> int \<times> int \<times> int"
type_synonym rng = nat

record FaceRecognitionService =
  FACE_RECOGNITION_AVAILABLE :: bool
  tolerance :: real
  decode_base64_image :: "string \<Rightarrow> image option"
  face_locations :: "image \<Rightarrow> face_location list option"
  face_encodings :: "image \<Rightarrow> face_location list \<Rightarrow> embedding list option"
  deserialize_embedding :: "bytes \<Rightarrow> embedding option"
  face_distance :: "embedding \<Rightarrow> embedding \<Rightarrow> real option"
  random_rand :: "rng \<Rightarrow> embedding \<times> rng"
  random_uniform :: "rng \<Rightarrow> real \<times> rng"

definition generate_embedding ::
  "FaceRecognitionService \<Rightarrow> image \<Rightarrow> rng \<Rightarrow> embedding option \<times> rng" where
  "generate_embedding self image' rng =
     (if \<not> FACE_RECOGNITION_AVAILABLE self then
        (case random_rand self rng of (simulated, rng) \<Rightarrow> (Some simulated, rng))
      else
        (case face_locations self image' of
           None \<Rightarrow> (None, rng)
         | Some locations \<Rightarrow>
             if locations = [] then (None, rng)
             else
               (case face_encodings self image' locations of
                  None \<Rightarrow> (None, rng)
                | Some embeddings \<Rightarrow>
                    if embeddings = [] then (None, rng)
                    else (Some (hd embeddings), rng))))"

definition compare_faces ::
  "FaceRecognitionService \<Rightarrow> embedding \<Rightarrow> image \<Rightarrow> rng \<Rightarrow> (bool \<times> real) \<times> rng" where
  "compare_faces self known_embedding face_image rng =
     (if \<not> FACE_RECOGNITION_AVAILABLE self then
        (case random_uniform self rng of
           (confidence, rng) \<Rightarrow> ((confidence > 0.8, confidence), rng))
      else
        (case generate_embedding self face_image rng of
           (None, rng) \<Rightarrow> ((False, 0), rng)
         | (Some new_embedding, rng) \<Rightarrow>
             (case face_distance self known_embedding new_embedding of
                None \<Rightarrow> ((False, 0), rng)
              | Some distance \<Rightarrow>
                  (let confidence = 1 - distance;
                       is_match = (distance \<le> tolerance self)
                   in ((is_match, confidence), rng)))))"

text \<open>
  The loop of \<open>find_matching_face\<close> over the stored embeddings, on
  \<^verbatim>\<open>(best_match, best_confidence)\<close> and the generator state; an embedding that cannot be
  deserialised is skipped (\<^verbatim>\<open>except ...: continue\<close>).
\<close>

fun find_matching_face_loop ::
  "FaceRecognitionService \<Rightarrow> image \<Rightarrow> int option \<times> real \<times> rng \<Rightarrow> (int \<times> bytes) list
     \<Rightarrow> int option \<times> real \<times> rng" where
  "find_matching_face_loop self face_image state [] = state"
| "find_matching_face_loop self face_image (best_match, best_confidence, rng)
       ((student_id, embedding_bytes) # rest) =
     (case deserialize_embedding self embedding_bytes of
        None \<Rightarrow>
          find_matching_face_loop self face_image (best_match, best_confidence, rng) rest
      | Some stored_embedding \<Rightarrow>
          (case compare_faces self stored_embedding face_image rng of
             ((is_match, confidence), rng) \<Rightarrow>
               if is_match \<and> confidence > best_confidence
               then find_matching_face_loop self face_image
                      (Some student_id, confidence, rng) rest
               else find_matching_face_loop self face_image
                      (best_match, best_confidence, rng) rest))"

definition find_matching_face ::
  "FaceRecognitionService \<Rightarrow> image \<Rightarrow> (int \<times> bytes) list \<Rightarrow> rng
     \<Rightarrow> (int \<times> real) option \<times> rng" where
  "find_matching_face self face_image embeddings rng =
     (case generate_embedding self face_image rng of
        (None, rng) \<Rightarrow> (None, rng)
      | (Some new_embedding, rng) \<Rightarrow>
          (case find_matching_face_loop self face_image (None, 0, rng) embeddings of
             (Some best_match, best_confidence, rng) \<Rightarrow>
               (Some (best_match, best_confidence), rng)
           | (None, best_confidence, rng) \<Rightarrow> (None, rng)))"

text \<open>
  The matches a scan reports, in scan order: the candidates whose stored embedding can be
  deserialised and that \<open>compare_faces\<close> classifies as a match when the scan reaches
  them, each with the confidence \<open>compare_faces\<close> reports for it. The generator state
  is the one the scan starts from.
\<close>

fun reported_matches ::
  "FaceRecognitionService \<Rightarrow> image \<Rightarrow> rng \<Rightarrow> (int \<times> bytes) list \<Rightarrow> (int \<times> real) list" where
  "reported_matches self face_image rng [] = []"
| "reported_matches self face_image rng ((student_id, embedding_bytes) # rest) =
     (case deserialize_embedding self embedding_bytes of
        None \<Rightarrow> reported_matches self face_image rng rest
      | Some stored_embedding \<Rightarrow>
          (case compare_faces self stored_embedding face_image rng of
             ((is_match, confidence), rng) \<Rightarrow>
               (if is_match then [(student_id, confidence)] else [])
               @ reported_matches self face_image rng rest))"

text \<open>The running best of the loop, over the reported matches alone.\<close>

fun best_from :: "int option \<times> real \<Rightarrow> (int \<times> real) list \<Rightarrow> int option \<times> real" where
  "best_from best [] = best"
| "best_from (best_match, best_confidence) ((student_id, confidence) # rest) =
     (if confidence > best_confidence then best_from (Some student_id, confidence) rest
      else best_from (best_match, best_confidence) rest)"

subsection \<open>The anomaly detector (\<^verbatim>\<open>services/anomaly.py\<close>)\<close>

text \<open>
  The query of \<open>check_duplicate_face\<close>: the students of the college that have a face
  embedding, the claiming student left out, in table order.
\<close>

definition other_students_with_face :: "store \<Rightarrow> int \<Rightarrow> string \<Rightarrow> (int \<times> bytes) list" where
  "other_students_with_face db claiming_student_id college_id =
     map (\<lambda>s. (s_id s, value_of (s_face_embedding s)))
       (filter (\<lambda>s. s_college_id s = college_id
                   \<and> s_face_embedding s \<noteq> None
                   \<and> s_id s \<noteq> claiming_student_id) (students db))"

definition check_duplicate_face ::
  "FaceRecognitionService \<Rightarrow> store \<Rightarrow> string \<Rightarrow> int \<Rightarrow> string \<Rightarrow> rng
     \<Rightarrow> int option \<times> rng" where
  "check_duplicate_face face_recognition_service db face_image_base64 claiming_student_id
       college_id rng =
     (let students = other_students_with_face db claiming_student_id college_id in
      if students = [] then (None, rng)
      else
        (case decode_base64_image face_recognition_service face_image_base64 of
           None \<Rightarrow> (None, rng)
         | Some face_image \<Rightarrow>
             (let embeddings = students in
              case find_matching_face face_recognition_service face_image embeddings rng of
                (Some (matched_student_id, confidence), rng) \<Rightarrow>
                  (Some matched_student_id, rng)
              | (None, rng) \<Rightarrow> (None, rng))))"

text \<open>
  \<^verbatim>\<open>json.dumps\<close> of the details dictionary, here a list of string pairs in key order.
  Only dictionaries whose values are strings are covered, and the escaping of quotes,
  backslashes and control characters is left out; no caller in the three modules passes
  details.
\<close>

definition json_dumps :: "(string \<times> string) list \<Rightarrow> string" where
  "json_dumps details =
     ''{'' @ join '', '' (map (\<lambda>(k, v). [CHR 0x22] @ k @ [CHR 0x22] @ '': ''
                                 @ [CHR 0x22] @ v @ [CHR 0x22]) details) @ ''}''"

definition log_anomaly ::
  "store \<Rightarrow> string \<Rightarrow> string \<Rightarrow> int option \<Rightarrow> int option \<Rightarrow> string
     \<Rightarrow> (string \<times> string) list option \<Rightarrow> string option \<Rightarrow> string option \<Rightarrow> datetime
     \<Rightarrow> store \<times> AnomalyLog" where
  "log_anomaly db anomaly_type reason student_id session_id severity details ip_address
       device_info now =
     add_anomaly db
       \<lparr> anom_id = 0,
         anom_student_id = student_id,
         anom_session_id = session_id,
         anom_anomaly_type = anomaly_type,
         anom_severity = severity,
         anom_reason = reason,
         anom_details = (if truthy details then Some (json_dumps (value_of details)) else None),
         anom_is_resolved = False,
         anom_resolved_by = None,
         anom_resolution_notes = None,
         anom_resolved_at = None,
         anom_attempt_time = now,
         anom_ip_address = ip_address,
         anom_device_info = device_info \<rparr>"

text \<open>
  \<open>resolve_anomaly\<close>: the row with the key, if there is one, is rewritten in place; the
  function does not look at \<^verbatim>\<open>is_resolved\<close> first.
\<close>

definition resolve_anomaly ::
  "store \<Rightarrow> int \<Rightarrow> int \<Rightarrow> string \<Rightarrow> datetime \<Rightarrow> error + store \<times> AnomalyLog option" where
  "resolve_anomaly db anomaly_id resolved_by resolution_notes now =
     (case scalar_one_or_none (filter (\<lambda>a. anom_id a = anomaly_id) (anomaly_logs db)) of
        Inl e \<Rightarrow> Inl e
      | Inr None \<Rightarrow> Inr (db, None)
      | Inr (Some anomaly) \<Rightarrow>
          (let anomaly = anomaly\<lparr>anom_is_resolved := True,
                                 anom_resolved_by := Some resolved_by,
                                 anom_resolution_notes := Some resolution_notes,
                                 anom_resolved_at := Some now\<rparr>
           in Inr (db\<lparr>anomaly_logs :=
                        map (\<lambda>a. if anom_id a = anomaly_id then anomaly else a)
                          (anomaly_logs db)\<rparr>,
                   Some anomaly)))"

subsection \<open>Runs of the core\<close>

text \<open>
  The operations of the three services that write to the store, and their effect on it.
  A run applies a list of them, each at its own time, and stops at the first exception.
\<close>

datatype core_op =
    MarkAttendance VerificationService AttendanceMarkRequest "string option"
  | LogAnomaly string string "int option" "int option" string
      "(string \<times> string) list option" "string option" "string option"
  | ResolveAnomaly int int string

fun apply_op :: "store \<Rightarrow> datetime \<times> core_op \<Rightarrow> error + store" where
  "apply_op db (now, MarkAttendance verification_service request ip_address) =
     (case mark_attendance verification_service db request ip_address now of
        Inl e \<Rightarrow> Inl e
      | Inr (db', _) \<Rightarrow> Inr db')"
| "apply_op db (now, LogAnomaly anomaly_type reason student_id session_id severity details
       ip_address device_info) =
     Inr (fst (log_anomaly db anomaly_type reason student_id session_id severity details
                 ip_address device_info now))"
| "apply_op db (now, ResolveAnomaly anomaly_id resolved_by resolution_notes) =
     (case resolve_anomaly db anomaly_id resolved_by resolution_notes now of
        Inl e \<Rightarrow> Inl e
      | Inr (db', _) \<Rightarrow> Inr db')"

fun run :: "store \<Rightarrow> (datetime \<times> core_op) list \<Rightarrow> error + store" where
  "run db [] = Inr db"
| "run db (op # ops) = (case apply_op db op of Inl e \<Rightarrow> Inl e | Inr db' \<Rightarrow> run db' ops)"

text \<open>
  What one operation does to an anomaly row that is already in the table: a resolution
  with the row's key rewrites the four resolution columns, every other operation leaves
  the row as it is.
\<close>

fun resolution_of :: "datetime \<times> core_op \<Rightarrow> AnomalyLog \<Rightarrow> AnomalyLog" where
  "resolution_of (now, ResolveAnomaly anomaly_id resolved_by resolution_notes) a =
     (if anom_id a = anomaly_id
      then a\<lparr>anom_is_resolved := True,
             anom_resolved_by := Some resolved_by,
             anom_resolution_notes := Some resolution_notes,
             anom_resolved_at := Some now\<rparr>
      else a)"
| "resolution_of (now, MarkAttendance verification_service request ip_address) a = a"
| "resolution_of (now, LogAnomaly anomaly_type reason student_id session_id severity details
       ip_address device_info) a = a"

fun resolves :: "int \<Rightarrow> datetime \<times> core_op \<Rightarrow> bool" where
  "resolves key (now, ResolveAnomaly anomaly_id resolved_by resolution_notes) =
     (anomaly_id = key)"
| "resolves key (now, MarkAttendance verification_service request ip_address) = False"
| "resolves key (now, LogAnomaly anomaly_type reason student_id session_id severity details
       ip_address device_info) = False"

subsection \<open>Example data\<close>

text \<open>
  A student enrolled with a face embedding and a fingerprint hash and no ID-card data, one
  session, and comparators that accept the face at confidence \<open>0.92\<close>, accept the
  fingerprint, and reject every ID card at confidence \<open>0.1\<close>.
\<close>

definition demo_service :: VerificationService where
  "demo_service =
     \<lparr> compare_faces_from_base64 = (\<lambda>_ _. (True, 0.92)),
       validate_id_card = (\<lambda>_ _ _. (False, 0.1, [])),
       fingerprint_service_verify = (\<lambda>_ _. (True, 0.95)),
       min_face_confidence = 0.8 \<rparr>"

definition demo_student :: Student where
  "demo_student =
     \<lparr> s_id = 1, s_roll_no = ''CS2024001'', s_name = ''John Doe'', s_college_id = ''C1'',
       s_face_embedding = Some ''E1'', s_fingerprint_hash = Some ''H1'',
       s_id_card_data = None, s_is_enrolled = True \<rparr>"

definition demo_store :: "bool \<Rightarrow> Attendance list \<Rightarrow> store" where
  "demo_store session_open rows =
     \<lparr> students = [demo_student],
       sessions = [\<lparr> se_id = 10, se_is_active = session_open \<rparr>],
       attendances = rows,
       anomaly_logs = [],
       attendance_seq = 1 + int (length rows),
       anomaly_seq = 1 \<rparr>"

definition demo_request ::
  "string option \<Rightarrow> string option \<Rightarrow> string option \<Rightarrow> AttendanceMarkRequest" where
  "demo_request face_image id_card_image fingerprint_token =
     \<lparr> req_session_id = 10, req_student_id = 1,
       req_face_image = face_image, req_id_card_image = id_card_image,
       req_fingerprint_token = fingerprint_token, req_device_info = None \<rparr>"

definition demo_anomaly :: AnomalyLog where
  "demo_anomaly =
     \<lparr> anom_id = 1, anom_student_id = Some 1, anom_session_id = Some 10,
       anom_anomaly_type = ''verification_failed'', anom_severity = ''medium'',
       anom_reason = ''Single factor verification failed: id_card'',
       anom_details = None, anom_is_resolved = False, anom_resolved_by = None,
       anom_resolution_notes = None, anom_resolved_at = None, anom_attempt_time = 100,
       anom_ip_address = None, anom_device_info = None \<rparr>"

definition demo_anomaly_store :: "AnomalyLog \<Rightarrow> store" where
  "demo_anomaly_store a = (demo_store True [])\<lparr>anomaly_logs := [a], anomaly_seq := 2\<rparr>"

definition demo_resolved :: "int \<Rightarrow> string \<Rightarrow> datetime \<Rightarrow> AnomalyLog" where
  "demo_resolved resolved_by resolution_notes now =
     demo_anomaly\<lparr>anom_is_resolved := True,
                  anom_resolved_by := Some resolved_by,
                  anom_resolution_notes := Some resolution_notes,
                  anom_resolved_at := Some now\<rparr>"

text \<open>
  A face service in library mode whose stored embeddings \<^verbatim>\<open>E1\<close> and \<^verbatim>\<open>E3\<close> lie at the
  two given distances from every sample; a face service in fallback mode whose generator
  draws the confidences \<open>0.75\<close>, \<open>0.9\<close>, \<open>0.9\<close>, ...; and a college of three enrolled
  students, the second of whom is the claimant.
\<close>

definition demo_face_service :: "real \<Rightarrow> real \<Rightarrow> real \<Rightarrow> FaceRecognitionService" where
  "demo_face_service tol distance1 distance3 =
     \<lparr> FACE_RECOGNITION_AVAILABLE = True,
       tolerance = tol,
       decode_base64_image = (\<lambda>_. Some [0]),
       face_locations = (\<lambda>_. Some [(100, 200, 300, 50)]),
       face_encodings = (\<lambda>_ _. Some [[0]]),
       deserialize_embedding =
         (\<lambda>b. if b = ''E1'' then Some [distance1]
              else if b = ''E3'' then Some [distance3] else None),
       face_distance = (\<lambda>known _. case known of [d] \<Rightarrow> Some d | _ \<Rightarrow> None),
       random_rand = (\<lambda>rng. ([], rng)),
       random_uniform = (\<lambda>rng. (0, rng)) \<rparr>"

definition demo_simulated_service :: FaceRecognitionService where
  "demo_simulated_service =
     (demo_face_service 0.6 0 0)
       \<lparr> FACE_RECOGNITION_AVAILABLE := False,
         random_rand := (\<lambda>rng. ([], rng + 1)),
         random_uniform := (\<lambda>rng. (if rng = 1 then 0.75 else 0.9, rng + 1)) \<rparr>"

definition demo_claimant :: Student where
  "demo_claimant =
     \<lparr> s_id = 2, s_roll_no = ''CS2024002'', s_name = ''Jane Roe'', s_college_id = ''C1'',
       s_face_embedding = Some ''E2'', s_fingerprint_hash = None,
       s_id_card_data = None, s_is_enrolled = True \<rparr>"

definition demo_third :: Student where
  "demo_third =
     \<lparr> s_id = 3, s_roll_no = ''CS2024003'', s_name = ''Sam Poe'', s_college_id = ''C1'',
       s_face_embedding = Some ''E3'', s_fingerprint_hash = None,
       s_id_card_data = None, s_is_enrolled = True \<rparr>"

definition demo_college :: store where
  "demo_college =
     (demo_store True [])\<lparr>students := [demo_student, demo_claimant, demo_third]\<rparr>"

definition demo_row :: Attendance where
  "demo_row =
     \<lparr> att_id = 1, att_student_id = 1, att_session_id = 10, att_status = PRESENT,
       att_face_confidence = Some 0.92, att_id_card_confidence = None,
       att_fingerprint_match = Some True, att_overall_confidence = 0.65,
       att_verification_method = ''face+fingerprint'', att_device_info = None,
       att_ip_address = None, att_marked_at = 100 \<rparr>"

section \<open>Properties\<close>

subsection \<open>The verification engine, unfolded\<close>

text \<open>
  \<open>verify_student\<close> as a function of the three guards and of what the comparators
  report, and the fields \<open>determine_success\<close> sets for each combination of guards.
\<close>

lemma truthy_value_of: "truthy x \<Longrightarrow> value_of x \<noteq> []"
  by (cases x) auto

lemma verify_student_unfold:
  "verify_student self roll name sf sh fi ci ft =
    (let a = truthy fi \<and> truthy sf; b = truthy ci; c = truthy ft \<and> truthy sh;
         rf = compare_faces_from_base64 self (value_of sf) (value_of fi);
         ri = validate_id_card self (value_of ci) roll name;
         rp = fingerprint_service_verify self (value_of ft) (value_of sh);
         fo = a \<and> fst rf; fc = (if a then snd rf else 0);
         io = b \<and> fst ri; ic = (if b then fst (snd ri) else 0);
         po = c \<and> fst rp
     in (determine_success self (applicable_methods a b c) fo fc io po
          \<lparr> success = False, face_verified = fo, face_confidence = fc,
            id_card_verified = io, id_card_confidence = ic,
            fingerprint_verified = po,
            overall_confidence = calculate_overall_confidence fc ic po,
            verification_method = (if applicable_methods a b c \<noteq> [] then join ''+'' (applicable_methods a b c) else ''none''),
            message = [], anomaly_detected = False, anomaly_reason = None \<rparr>,
         (if a then [FaceComparator (value_of sf) (value_of fi)] else [])
         @ (if b then [IdCardComparator (value_of ci) roll name] else [])
         @ (if c then [FingerprintComparator (value_of ft) (value_of sh)] else [])))"
  by (cases "truthy fi"; cases "truthy sf"; cases "truthy ci"; cases "truthy ft"; cases "truthy sh";
      simp add: verify_student_def verify_face_def verify_id_card_def verify_fingerprint_def
      VerificationResult_init_def Let_def truthy_value_of applicable_methods_def case_prod_beta)

lemma determine_success_success:
  "success (determine_success self (applicable_methods a b c) fo fc io po r) =
     (if a then (if b then (if c then fo \<and> io \<and> po else fo \<and> io)
                 else (if c then fo \<and> po else fo \<and> fc \<ge> min_face_confidence self))
      else (if b then (if c then io \<and> po else io) else (if c then po else False)))"
  by (cases a; cases b; cases c; simp add: determine_success_def applicable_methods_def Let_def)

lemma determine_success_other_fields:
  "face_verified (determine_success self ms fo fc io po r) = face_verified r"
  "face_confidence (determine_success self ms fo fc io po r) = face_confidence r"
  "id_card_verified (determine_success self ms fo fc io po r) = id_card_verified r"
  "id_card_confidence (determine_success self ms fo fc io po r) = id_card_confidence r"
  "fingerprint_verified (determine_success self ms fo fc io po r) = fingerprint_verified r"
  "overall_confidence (determine_success self ms fo fc io po r) = overall_confidence r"
  "verification_method (determine_success self ms fo fc io po r) = verification_method r"
  by (simp_all add: determine_success_def Let_def)

lemma determine_success_anomaly:
  assumes "\<not> anomaly_detected r" "anomaly_reason r = None"
  shows "anomaly_detected (determine_success self (applicable_methods a b c) fo fc io po r)
           = (\<not> success (determine_success self (applicable_methods a b c) fo fc io po r))"
    and "anomaly_reason (determine_success self (applicable_methods a b c) fo fc io po r) =
           (if success (determine_success self (applicable_methods a b c) fo fc io po r) then None
            else Some (if \<not> a \<and> \<not> b \<and> \<not> c then ''No biometric data provided for verification''
                  else if length (applicable_methods a b c) = 1 then ''Single factor verification failed: '' @ hd (applicable_methods a b c)
                  else if length (applicable_methods a b c) = 2 then ''Two-factor verification failed: only '' @ str_nat (length (filter id [a \<and> fo, b \<and> io, c \<and> po])) @ ''/2 passed''
                  else ''Multi-factor verification failed: '' @ join '', '' (applicable_methods (\<not> fo) (\<not> io) (\<not> po))))"
  using assms
  by (cases a; cases b; cases c; simp add: determine_success_def applicable_methods_def Let_def)+


lemma verify_student_overall_confidence:
  "overall_confidence (fst (verify_student self roll name sf sh fi ci ft)) =
     calculate_overall_confidence
       (if truthy fi \<and> truthy sf
        then snd (compare_faces_from_base64 self (value_of sf) (value_of fi)) else 0)
       (if truthy ci then fst (snd (validate_id_card self (value_of ci) roll name)) else 0)
       (truthy ft \<and> truthy sh
          \<and> fst (fingerprint_service_verify self (value_of ft) (value_of sh)))"
  by (simp add: verify_student_unfold Let_def determine_success_other_fields)

subsection \<open>The tiered success policy\<close>

text \<open>
  Claim C1. The success flag of the result of \<open>verify_student\<close> is the tiered policy over
  the applicable factors: false with none; with one, that factor's comparator verdict (for
  the face also a confidence of at least the configured minimum); with two, both verdicts;
  with three, all three verdicts.
\<close>

theorem verify_student_tiered_policy:
  "success (fst (verify_student self roll name sf sh fi ci ft)) =
     tiered_policy (min_face_confidence self) (face_outcome self sf fi)
       (id_card_outcome self roll name ci) (fingerprint_outcome self sh ft)"
proof -
  have "success (fst (verify_student self roll name sf sh fi ci ft)) =
     (let a = truthy fi \<and> truthy sf; b = truthy ci; c = truthy ft \<and> truthy sh;
          rf = compare_faces_from_base64 self (value_of sf) (value_of fi);
          ri = validate_id_card self (value_of ci) roll name;
          rp = fingerprint_service_verify self (value_of ft) (value_of sh)
      in (if a then (if b then (if c then fst rf \<and> fst ri \<and> fst rp else fst rf \<and> fst ri)
                 else (if c then fst rf \<and> fst rp else fst rf \<and> snd rf \<ge> min_face_confidence self))
      else (if b then (if c then fst ri \<and> fst rp else fst ri) else (if c then fst rp else False))))"
    by (simp add: verify_student_unfold Let_def determine_success_success)
  also have "\<dots> = tiered_policy (min_face_confidence self) (face_outcome self sf fi)
       (id_card_outcome self roll name ci) (fingerprint_outcome self sh ft)"
    by (cases "truthy fi"; cases "truthy sf"; cases "truthy ci"; cases "truthy ft";
        cases "truthy sh"; simp add: tiered_policy_def face_outcome_def id_card_outcome_def
          fingerprint_outcome_def Let_def)
  finally show ?thesis .
qed

theorem verify_student_tiered_policy_witness:
  "success (fst (verify_student
      \<lparr> compare_faces_from_base64 = (\<lambda>_ _. (True, 0.79)),
        validate_id_card = (\<lambda>_ _ _. (False, 0.1, [])),
        fingerprint_service_verify = (\<lambda>_ _. (True, 0.95)),
        min_face_confidence = 0.8 \<rparr>
      ''CS2024001'' ''John Doe'' (Some ''embedding'') (Some ''hash'')
      (Some ''face'') None None)) = False
   \<and> success (fst (verify_student
      \<lparr> compare_faces_from_base64 = (\<lambda>_ _. (True, 0.92)),
        validate_id_card = (\<lambda>_ _ _. (False, 0.1, [])),
        fingerprint_service_verify = (\<lambda>_ _. (True, 0.95)),
        min_face_confidence = 0.8 \<rparr>
      ''CS2024001'' ''John Doe'' (Some ''embedding'') (Some ''hash'')
      (Some ''face'') None (Some ''token''))) = True"
  using verify_student_tiered_policy [of
      "\<lparr> compare_faces_from_base64 = (\<lambda>_ _. (True, 0.79)),
        validate_id_card = (\<lambda>_ _ _. (False, 0.1, [])),
        fingerprint_service_verify = (\<lambda>_ _. (True, 0.95)),
        min_face_confidence = 0.8 \<rparr>"
      "''CS2024001''" "''John Doe''" "Some ''embedding''" "Some ''hash''"
      "Some ''face''" None None]
    verify_student_tiered_policy [of
      "\<lparr> compare_faces_from_base64 = (\<lambda>_ _. (True, 0.92)),
        validate_id_card = (\<lambda>_ _ _. (False, 0.1, [])),
        fingerprint_service_verify = (\<lambda>_ _. (True, 0.95)),
        min_face_confidence = 0.8 \<rparr>"
      "''CS2024001''" "''John Doe''" "Some ''embedding''" "Some ''hash''"
      "Some ''face''" None "Some ''token''"]
  by (simp add: tiered_policy_def face_outcome_def id_card_outcome_def fingerprint_outcome_def)


subsection \<open>The weighted confidence\<close>

text \<open>
  Claim C2. For per-factor confidences in \<open>[0,1]\<close> the overall confidence is the fixed
  weighted sum \<open>0.50 * face + 0.30 * id + 0.20 * (0.95 if the fingerprint matched, else 0)\<close>;
  the weights are never renormalised, a missing factor (confidence \<open>0\<close>, no fingerprint
  match) contributes \<open>0\<close>, and the result lies in \<open>[0,1]\<close>. \<open>verify_student\<close>
  sets the overall confidence of its result to this function of the confidences of the
  evaluated factors, with \<open>0\<close> for a factor it skipped.
\<close>

theorem calculate_overall_confidence_weighted_sum:
  assumes "0 \<le> f" "f \<le> 1" "0 \<le> i" "i \<le> 1"
  shows "calculate_overall_confidence f i p
           = 0.50 * f + 0.30 * i + 0.20 * (if p then 0.95 else 0.0)
       \<and> 0 \<le> calculate_overall_confidence f i p
       \<and> calculate_overall_confidence f i p \<le> 1
       \<and> calculate_overall_confidence 0 i p = 0.30 * i + 0.20 * (if p then 0.95 else 0.0)
       \<and> calculate_overall_confidence f 0 p = 0.50 * f + 0.20 * (if p then 0.95 else 0.0)
       \<and> calculate_overall_confidence f i False = 0.50 * f + 0.30 * i
       \<and> overall_confidence (fst (verify_student self roll name sf sh fi ci ft)) =
           calculate_overall_confidence
             (if truthy fi \<and> truthy sf
              then snd (compare_faces_from_base64 self (value_of sf) (value_of fi)) else 0)
             (if truthy ci then fst (snd (validate_id_card self (value_of ci) roll name))
              else 0)
             (truthy ft \<and> truthy sh
                \<and> fst (fingerprint_service_verify self (value_of ft) (value_of sh)))"
proof -
  have "calculate_overall_confidence f i p
           = 0.50 * f + 0.30 * i + 0.20 * (if p then 0.95 else 0.0)
       \<and> 0 \<le> calculate_overall_confidence f i p
       \<and> calculate_overall_confidence f i p \<le> 1
       \<and> calculate_overall_confidence 0 i p = 0.30 * i + 0.20 * (if p then 0.95 else 0.0)
       \<and> calculate_overall_confidence f 0 p = 0.50 * f + 0.20 * (if p then 0.95 else 0.0)
       \<and> calculate_overall_confidence f i False = 0.50 * f + 0.30 * i"
    using assms
    by (auto simp: calculate_overall_confidence_def face_weight_def id_weight_def
        fingerprint_weight_def min_def)
  then show ?thesis
    using verify_student_overall_confidence [of self roll name sf sh fi ci ft] by blast
qed

theorem calculate_overall_confidence_weighted_sum_witness:
  "calculate_overall_confidence 0.92 0 True = 0.65
     \<and> calculate_overall_confidence 1 1 False = 0.8
     \<and> overall_confidence (fst (verify_student demo_service ''CS2024001'' ''John Doe''
          (Some ''E1'') (Some ''H1'') (Some ''face'') None (Some ''token''))) = 0.65"
  using calculate_overall_confidence_weighted_sum [of "0.92" 0 True demo_service
      "''CS2024001''" "''John Doe''" "Some ''E1''" "Some ''H1''" "Some ''face''" None
      "Some ''token''"]
    calculate_overall_confidence_weighted_sum [of 1 1 False]
  by (simp add: demo_service_def)

text \<open>
  Claim C10. For per-factor confidences in \<open>[0,1]\<close> the overall confidence is at most
  \<open>0.99\<close>, the value reached when all three factors are perfect
  (\<open>0.50 + 0.30 + 0.19\<close>); it is below \<open>1\<close>, so the clamp never takes effect.
\<close>

theorem calculate_overall_confidence_at_most_099:
  assumes "0 \<le> f" "f \<le> 1" "0 \<le> i" "i \<le> 1"
  shows "calculate_overall_confidence f i p \<le> 0.99
       \<and> calculate_overall_confidence f i p < 1
       \<and> calculate_overall_confidence f i p
            = f * face_weight + i * id_weight + (if p then 0.95 else 0.0) * fingerprint_weight
       \<and> calculate_overall_confidence 1 1 True = 0.99"
  using assms
  by (auto simp: calculate_overall_confidence_def face_weight_def id_weight_def
      fingerprint_weight_def min_def)

theorem calculate_overall_confidence_at_most_099_witness:
  "calculate_overall_confidence 1 1 True \<le> 0.99
     \<and> calculate_overall_confidence 1 1 True < 1
     \<and> calculate_overall_confidence 0.4 0.7 False \<le> 0.99"
  using calculate_overall_confidence_at_most_099 [of 1 1 True]
    calculate_overall_confidence_at_most_099 [of "0.4" "0.7" False]
  by simp

subsection \<open>The ledger, unfolded\<close>

lemma scalar_one_or_none_None: "scalar_one_or_none xs = Inr None \<longleftrightarrow> xs = []"
  by (cases xs rule: scalar_one_or_none.cases) simp_all

lemma scalar_one_or_none_Some: "scalar_one_or_none xs = Inr (Some x) \<longleftrightarrow> xs = [x]"
  by (cases xs rule: scalar_one_or_none.cases) auto

lemma check_existing_None_no_row:
  "check_existing_attendance db i s = Inr None \<Longrightarrow>
     \<not> list_ex (\<lambda>a. att_student_id a = i \<and> att_session_id a = s) (attendances db)"
  by (auto simp: check_existing_attendance_def scalar_one_or_none_None filter_empty_conv
      list_ex_iff)

lemma get_student_Some_id: "get_student db i = Inr (Some st) \<Longrightarrow> s_id st = i"
proof -
  assume "get_student db i = Inr (Some st)"
  then have "filter (\<lambda>s. s_id s = i) (students db) = [st]"
    by (simp add: get_student_def scalar_one_or_none_Some)
  then have "st \<in> set (filter (\<lambda>s. s_id s = i) (students db))" by simp
  then show ?thesis by simp
qed

lemma get_session_Some_id: "get_session db i = Inr (Some se) \<Longrightarrow> se_id se = i"
proof -
  assume "get_session db i = Inr (Some se)"
  then have "filter (\<lambda>s. se_id s = i) (sessions db) = [se]"
    by (simp add: get_session_def scalar_one_or_none_Some)
  then have "se \<in> set (filter (\<lambda>s. se_id s = i) (sessions db))" by simp
  then show ?thesis by simp
qed

lemma mark_attendance_verified:
  assumes st: "get_student db (req_student_id request) = Inr (Some student)"
    and se: "get_session db (req_session_id request) = Inr (Some session)"
    and active: "se_is_active session"
    and fresh: "check_existing_attendance db (req_student_id request) (req_session_id request)
                  = Inr None"
    and enrolled: "s_is_enrolled student"
    and vr: "verify_student vs (s_roll_no student) (s_name student)
             (s_face_embedding student) (s_fingerprint_hash student)
             (req_face_image request) (req_id_card_image request)
             (req_fingerprint_token request) = (vr, calls)"
  shows "mark_attendance vs db request ip now =
     Inr (db\<lparr>anomaly_logs := anomaly_logs db
                 @ (if anomaly_detected vr then [failure_row db request ip now vr] else []),
              anomaly_seq := anomaly_seq db + (if anomaly_detected vr then 1 else 0),
              attendances := attendances db
                 @ (if success vr then [present_row db request ip now vr] else []),
              attendance_seq := attendance_seq db + (if success vr then 1 else 0)\<rparr>,
          (if success vr then Some (present_row db request ip now vr) else None),
          vr, calls)"
proof -
  have i: "s_id student = req_student_id request" using st by (rule get_student_Some_id)
  have s: "se_id session = req_session_id request" using se by (rule get_session_Some_id)
  have no: "\<not> list_ex (\<lambda>a. att_student_id a = req_student_id request
                \<and> att_session_id a = req_session_id request) (attendances db)"
    using fresh by (rule check_existing_None_no_row)
  show ?thesis
    using no
    by (simp add: mark_attendance_def st se active fresh enrolled vr i s add_attendance_def
        attendance_log_anomaly_def add_anomaly_def present_row_def failure_row_def Let_def)
qed

lemma verify_student_anomaly_iff_failure:
  "anomaly_detected (fst (verify_student self roll name sf sh fi ci ft))
     = (\<not> success (fst (verify_student self roll name sf sh fi ci ft)))"
  by (simp add: verify_student_unfold Let_def determine_success_anomaly(1))

lemma verify_student_reason:
  "(anomaly_reason (fst (verify_student self roll name sf sh fi ci ft)) = None)
     = success (fst (verify_student self roll name sf sh fi ci ft))"
  "truthy (anomaly_reason (fst (verify_student self roll name sf sh fi ci ft)))
     = (\<not> success (fst (verify_student self roll name sf sh fi ci ft)))"
  by (simp_all add: verify_student_unfold Let_def determine_success_anomaly(2))

lemma mark_attendance_hard_error:
  assumes st: "get_student db (req_student_id request) = Inr (Some student)"
    and se: "get_session db (req_session_id request) = Inr (Some session)"
  shows "\<not> se_is_active session \<Longrightarrow>
           mark_attendance vs db request ip now
             = Inr (db, None, rejected ''Session is not active for attendance marking'', [])"
    and "se_is_active session \<Longrightarrow>
           check_existing_attendance db (req_student_id request) (req_session_id request)
             = Inr (Some existing) \<Longrightarrow>
           mark_attendance vs db request ip now
             = Inr (db, None, rejected ''Attendance already marked for this session'', [])"
    and "se_is_active session \<Longrightarrow>
           check_existing_attendance db (req_student_id request) (req_session_id request)
             = Inr None \<Longrightarrow> \<not> s_is_enrolled student \<Longrightarrow>
           mark_attendance vs db request ip now
             = Inr (db, None,
                 rejected ''Student biometrics not enrolled. Please complete enrollment first.'',
                 [])"
  by (simp_all add: mark_attendance_def st se)

lemma rejected_fields:
  "success (rejected m) = False" "anomaly_detected (rejected m) = False"
  "anomaly_reason (rejected m) = None" "message (rejected m) = m"
  by (simp_all add: rejected_def VerificationResult_init_def)

text \<open>Every way \<open>mark_attendance\<close> returns, as a case rule.\<close>

lemma mark_attendance_early:
  "get_student db (req_student_id request) = Inl e \<Longrightarrow>
     mark_attendance vs db request ip now = Inl e"
  "get_student db (req_student_id request) = Inr None \<Longrightarrow>
     mark_attendance vs db request ip now = Inr (db, None, rejected ''Student not found'', [])"
  "get_student db (req_student_id request) = Inr (Some student) \<Longrightarrow>
     get_session db (req_session_id request) = Inl e \<Longrightarrow>
     mark_attendance vs db request ip now = Inl e"
  "get_student db (req_student_id request) = Inr (Some student) \<Longrightarrow>
     get_session db (req_session_id request) = Inr None \<Longrightarrow>
     mark_attendance vs db request ip now = Inr (db, None, rejected ''Session not found'', [])"
  "get_student db (req_student_id request) = Inr (Some student) \<Longrightarrow>
     get_session db (req_session_id request) = Inr (Some session) \<Longrightarrow>
     se_is_active session \<Longrightarrow>
     check_existing_attendance db (req_student_id request) (req_session_id request) = Inl e \<Longrightarrow>
     mark_attendance vs db request ip now = Inl e"
  by (simp_all add: mark_attendance_def)

lemma mark_attendance_cases [consumes 1, case_names no_student no_session inactive existing
    unenrolled verified]:
  assumes out: "mark_attendance vs db request ip now = Inr (db', att, res, calls)"
  obtains
    (no_student) "get_student db (req_student_id request) = Inr None"
      "db' = db" "att = None" "res = rejected ''Student not found''" "calls = []"
  | (no_session) student where
      "get_student db (req_student_id request) = Inr (Some student)"
      "get_session db (req_session_id request) = Inr None"
      "db' = db" "att = None" "res = rejected ''Session not found''" "calls = []"
  | (inactive) student session where
      "get_student db (req_student_id request) = Inr (Some student)"
      "get_session db (req_session_id request) = Inr (Some session)"
      "\<not> se_is_active session"
      "db' = db" "att = None"
      "res = rejected ''Session is not active for attendance marking''" "calls = []"
  | (existing) student session row where
      "get_student db (req_student_id request) = Inr (Some student)"
      "get_session db (req_session_id request) = Inr (Some session)"
      "se_is_active session"
      "check_existing_attendance db (req_student_id request) (req_session_id request)
         = Inr (Some row)"
      "db' = db" "att = None"
      "res = rejected ''Attendance already marked for this session''" "calls = []"
  | (unenrolled) student session where
      "get_student db (req_student_id request) = Inr (Some student)"
      "get_session db (req_session_id request) = Inr (Some session)"
      "se_is_active session"
      "check_existing_attendance db (req_student_id request) (req_session_id request)
         = Inr None"
      "\<not> s_is_enrolled student"
      "db' = db" "att = None"
      "res = rejected ''Student biometrics not enrolled. Please complete enrollment first.''"
      "calls = []"
  | (verified) student session where
      "get_student db (req_student_id request) = Inr (Some student)"
      "get_session db (req_session_id request) = Inr (Some session)"
      "se_is_active session"
      "check_existing_attendance db (req_student_id request) (req_session_id request)
         = Inr None"
      "s_is_enrolled student"
      "verify_student vs (s_roll_no student) (s_name student)
             (s_face_embedding student) (s_fingerprint_hash student)
             (req_face_image request) (req_id_card_image request)
             (req_fingerprint_token request) = (res, calls)"
      "db' = db\<lparr>anomaly_logs := anomaly_logs db
                 @ (if anomaly_detected res then [failure_row db request ip now res] else []),
              anomaly_seq := anomaly_seq db + (if anomaly_detected res then 1 else 0),
              attendances := attendances db
                 @ (if success res then [present_row db request ip now res] else []),
              attendance_seq := attendance_seq db + (if success res then 1 else 0)\<rparr>"
      "att = (if success res then Some (present_row db request ip now res) else None)"
proof (cases "get_student db (req_student_id request)")
  case (Inl e)
  from out [unfolded mark_attendance_early(1) [OF Inl]] show ?thesis by simp
next
  case st: (Inr so)
  show ?thesis
  proof (cases so)
    case None
    note st = st [unfolded None]
    from out [unfolded mark_attendance_early(2) [OF st]] show ?thesis
      by (intro no_student [OF st]) simp_all
  next
    case (Some student)
    note st = st [unfolded Some]
    show ?thesis
    proof (cases "get_session db (req_session_id request)")
      case (Inl e)
      from out [unfolded mark_attendance_early(3) [OF st Inl]] show ?thesis by simp
    next
      case se: (Inr seo)
      show ?thesis
      proof (cases seo)
        case None
        note se = se [unfolded None]
        from out [unfolded mark_attendance_early(4) [OF st se]] show ?thesis
          by (intro no_session [OF st se]) simp_all
      next
        case (Some session)
        note se = se [unfolded Some]
        show ?thesis
        proof (cases "se_is_active session")
          case False
          have m: "mark_attendance vs db request ip now
             = Inr (db, None, rejected ''Session is not active for attendance marking'', [])"
            by (rule mark_attendance_hard_error(1) [OF st se False])
          from out [unfolded m] show ?thesis
            by (intro inactive [OF st se False]) simp_all
        next
          case active: True
          show ?thesis
          proof (cases "check_existing_attendance db (req_student_id request)
                          (req_session_id request)")
            case (Inl e)
            from out [unfolded mark_attendance_early(5) [OF st se active Inl]] show ?thesis
              by simp
          next
            case ex: (Inr ro)
            show ?thesis
            proof (cases ro)
              case (Some row)
              note ex = ex [unfolded Some]
              have m: "mark_attendance vs db request ip now
                 = Inr (db, None, rejected ''Attendance already marked for this session'', [])"
                by (rule mark_attendance_hard_error(2) [OF st se active ex])
              from out [unfolded m] show ?thesis
                by (intro existing [OF st se active ex]) simp_all
            next
              case None
              note ex = ex [unfolded None]
              show ?thesis
              proof (cases "s_is_enrolled student")
                case False
                have m: "mark_attendance vs db request ip now
                   = Inr (db, None, rejected
                       ''Student biometrics not enrolled. Please complete enrollment first.'',
                       [])"
                  by (rule mark_attendance_hard_error(3) [OF st se active ex False])
                from out [unfolded m] show ?thesis
                  by (intro unenrolled [OF st se active ex False]) simp_all
              next
                case enrolled: True
                obtain vr cs where vr: "verify_student vs (s_roll_no student) (s_name student)
                   (s_face_embedding student) (s_fingerprint_hash student)
                   (req_face_image request) (req_id_card_image request)
                   (req_fingerprint_token request) = (vr, cs)"
                  by (cases "verify_student vs (s_roll_no student) (s_name student)
                   (s_face_embedding student) (s_fingerprint_hash student)
                   (req_face_image request) (req_id_card_image request)
                   (req_fingerprint_token request)") blast
                from out [unfolded mark_attendance_verified [OF st se active ex enrolled vr]]
                have "db\<lparr>anomaly_logs := anomaly_logs db
                      @ (if anomaly_detected vr then [failure_row db request ip now vr] else []),
                    anomaly_seq := anomaly_seq db + (if anomaly_detected vr then 1 else 0),
                    attendances := attendances db
                      @ (if success vr then [present_row db request ip now vr] else []),
                    attendance_seq := attendance_seq db + (if success vr then 1 else 0)\<rparr>
                    = db'
                  \<and> (if success vr then Some (present_row db request ip now vr) else None) = att
                  \<and> vr = res \<and> cs = calls"
                  unfolding sum.inject prod.inject .
                then have eq: "res = vr" "calls = cs"
                  "db' = db\<lparr>anomaly_logs := anomaly_logs db
                      @ (if anomaly_detected vr then [failure_row db request ip now vr] else []),
                    anomaly_seq := anomaly_seq db + (if anomaly_detected vr then 1 else 0),
                    attendances := attendances db
                      @ (if success vr then [present_row db request ip now vr] else []),
                    attendance_seq := attendance_seq db + (if success vr then 1 else 0)\<rparr>"
                  "att = (if success vr then Some (present_row db request ip now vr) else None)"
                  by blast+
                show ?thesis
                proof (rule verified [OF st se active ex enrolled])
                  show "verify_student vs (s_roll_no student) (s_name student)
                     (s_face_embedding student) (s_fingerprint_hash student)
                     (req_face_image request) (req_id_card_image request)
                     (req_fingerprint_token request) = (res, calls)"
                    using vr eq(1,2) by simp
                  show "db' = db\<lparr>anomaly_logs := anomaly_logs db
                      @ (if anomaly_detected res then [failure_row db request ip now res] else []),
                    anomaly_seq := anomaly_seq db + (if anomaly_detected res then 1 else 0),
                    attendances := attendances db
                      @ (if success res then [present_row db request ip now res] else []),
                    attendance_seq := attendance_seq db + (if success res then 1 else 0)\<rparr>"
                    unfolding eq(1) by (rule eq(3))
                  show "att = (if success res then Some (present_row db request ip now res)
                               else None)"
                    unfolding eq(1) by (rule eq(4))
                qed
              qed
            qed
          qed
        qed
      qed
    qed
  qed
qed

text \<open>The example data, evaluated.\<close>

lemma demo_lookups:
  "get_student (demo_store b rows) 1 = Inr (Some demo_student)"
  "get_session (demo_store b rows) 10 = Inr (Some \<lparr> se_id = 10, se_is_active = b \<rparr>)"
  "check_existing_attendance (demo_store b []) 1 10 = Inr None"
  "check_existing_attendance (demo_store b [demo_row]) 1 10 = Inr (Some demo_row)"
  "req_student_id (demo_request f i p) = 1" "req_session_id (demo_request f i p) = 10"
  "req_face_image (demo_request f i p) = f" "req_id_card_image (demo_request f i p) = i"
  "req_fingerprint_token (demo_request f i p) = p"
  "s_is_enrolled demo_student"
  by (simp_all add: get_student_def get_session_def check_existing_attendance_def
      demo_store_def demo_student_def demo_request_def demo_row_def)

lemma demo_verify_id_only:
  "verify_student demo_service (s_roll_no demo_student) (s_name demo_student)
     (s_face_embedding demo_student) (s_fingerprint_hash demo_student)
     None (Some ''card'') None =
   (\<lparr> success = False, face_verified = False, face_confidence = 0,
      id_card_verified = False, id_card_confidence = 0.1,
      fingerprint_verified = False, overall_confidence = 0.03,
      verification_method = ''id_card'',
      message = ''Single factor (id_card) verification'',
      anomaly_detected = True,
      anomaly_reason = Some ''Single factor verification failed: id_card'' \<rparr>,
    [IdCardComparator ''card'' ''CS2024001'' ''John Doe''])"
  by (simp add: verify_student_unfold Let_def demo_service_def demo_student_def
      determine_success_def applicable_methods_def calculate_overall_confidence_def
      face_weight_def id_weight_def fingerprint_weight_def)

lemma demo_verify_face_fingerprint:
  "verify_student demo_service (s_roll_no demo_student) (s_name demo_student)
     (s_face_embedding demo_student) (s_fingerprint_hash demo_student)
     (Some ''face'') None (Some ''token'') =
   (\<lparr> success = True, face_verified = True, face_confidence = 0.92,
      id_card_verified = False, id_card_confidence = 0,
      fingerprint_verified = True, overall_confidence = 0.65,
      verification_method = ''face+fingerprint'',
      message = ''Two-factor verification: 2/2 passed'',
      anomaly_detected = False,
      anomaly_reason = None \<rparr>,
    [FaceComparator ''E1'' ''face'', FingerprintComparator ''token'' ''H1''])"
  by (simp add: verify_student_unfold Let_def demo_service_def demo_student_def
      determine_success_def applicable_methods_def calculate_overall_confidence_def
      face_weight_def id_weight_def fingerprint_weight_def str_nat.simps digit_char_def)

text \<open>The attendance table under \<open>mark_attendance\<close> and under runs.\<close>

lemma records_for_check_existing:
  "check_existing_attendance db i s = scalar_one_or_none (records_for db i s)"
  by (simp add: check_existing_attendance_def records_for_def)

lemma unique_append_row:
  assumes "unique_student_session db" "records_for db (att_student_id a) (att_session_id a) = []"
  shows "distinct (map (\<lambda>a. (att_student_id a, att_session_id a)) (attendances db @ [a]))"
  using assms
  by (auto simp: unique_student_session_def records_for_def filter_empty_conv)

lemma present_row_ids:
  "att_student_id (present_row db request ip now vr) = req_student_id request"
  "att_session_id (present_row db request ip now vr) = req_session_id request"
  by (simp_all add: present_row_def)

lemma verified_store_attendances:
  "attendances (db\<lparr>anomaly_logs := A, anomaly_seq := B, attendances := C,
                    attendance_seq := D\<rparr>) = C"
  by simp

lemma mark_attendance_attendances:
  assumes out: "mark_attendance vs db request ip now = Inr (db', att, res, calls)"
  shows "attendances db' = attendances db @ (case att of None \<Rightarrow> [] | Some a \<Rightarrow> [a])"
  using out
proof (cases rule: mark_attendance_cases)
  case (verified student session)
  show ?thesis
    unfolding verified(7) verified(8) verified_store_attendances
    by (cases "success res") simp_all
qed simp_all

lemma mark_attendance_created:
  assumes out: "mark_attendance vs db request ip now = Inr (db', Some a, res, calls)"
  shows "success res \<and> att_student_id a = req_student_id request
           \<and> att_session_id a = req_session_id request
           \<and> records_for db (req_student_id request) (req_session_id request) = []"
  using out
proof (cases rule: mark_attendance_cases)
  case (verified student session)
  from verified(8) have s: "success res" by (cases "success res") simp_all
  with verified(8) have a: "a = present_row db request ip now res" by simp
  from verified(4) have "records_for db (req_student_id request) (req_session_id request) = []"
    by (simp add: records_for_check_existing scalar_one_or_none_None)
  with s a show ?thesis by (simp add: present_row_ids)
qed simp_all

lemma mark_attendance_existing:
  assumes out: "mark_attendance vs db request ip now = Inr (db', att, res, calls)"
    and ex: "records_for db (req_student_id request) (req_session_id request) \<noteq> []"
  shows "db' = db \<and> att = None \<and> \<not> success res \<and> calls = []"
  using out
proof (cases rule: mark_attendance_cases)
  case (unenrolled student session)
  with ex show ?thesis
    by (simp add: records_for_check_existing scalar_one_or_none_None)
next
  case (verified student session)
  with ex show ?thesis
    by (simp add: records_for_check_existing scalar_one_or_none_None)
qed (simp_all add: rejected_fields)

lemma mark_attendance_first:
  assumes "get_student db (req_student_id request) = Inr (Some student)
          \<and> get_session db (req_session_id request) = Inr (Some session)
          \<and> se_is_active session \<and> s_is_enrolled student
          \<and> records_for db (req_student_id request) (req_session_id request) = []
          \<and> verify_student vs (s_roll_no student) (s_name student)
               (s_face_embedding student) (s_fingerprint_hash student)
               (req_face_image request) (req_id_card_image request)
               (req_fingerprint_token request) = (vr, cs)
          \<and> success vr"
  shows "mark_attendance vs db request ip now
           = Inr (db\<lparr>attendances := attendances db @ [present_row db request ip now vr],
                     attendance_seq := attendance_seq db + 1\<rparr>,
                  Some (present_row db request ip now vr), vr, cs)"
proof -
  from assms have st: "get_student db (req_student_id request) = Inr (Some student)"
    and se: "get_session db (req_session_id request) = Inr (Some session)"
    and active: "se_is_active session" and enrolled: "s_is_enrolled student"
    and none: "records_for db (req_student_id request) (req_session_id request) = []"
    and vr: "verify_student vs (s_roll_no student) (s_name student)
               (s_face_embedding student) (s_fingerprint_hash student)
               (req_face_image request) (req_id_card_image request)
               (req_fingerprint_token request) = (vr, cs)"
    and ok: "success vr"
    by blast+
  from none have fresh:
    "check_existing_attendance db (req_student_id request) (req_session_id request) = Inr None"
    by (simp add: records_for_check_existing scalar_one_or_none_None)
  from verify_student_anomaly_iff_failure [of vs "s_roll_no student" "s_name student"
      "s_face_embedding student" "s_fingerprint_hash student" "req_face_image request"
      "req_id_card_image request" "req_fingerprint_token request"] ok
  have quiet: "\<not> anomaly_detected vr" by (simp add: vr)
  show ?thesis
    unfolding mark_attendance_verified [OF st se active fresh enrolled vr]
    using ok quiet by simp
qed

lemma mark_attendance_unique:
  assumes uniq: "unique_student_session db"
    and out: "mark_attendance vs db request ip now = Inr (db', att, res, calls)"
  shows "unique_student_session db'"
proof (cases att)
  case None
  with mark_attendance_attendances [OF out] uniq show ?thesis
    by (simp add: unique_student_session_def)
next
  case (Some a)
  with mark_attendance_created [of vs db request ip now db' a res calls] out
  have "records_for db (att_student_id a) (att_session_id a) = []" by simp
  from unique_append_row [OF uniq this] mark_attendance_attendances [OF out] Some
  show ?thesis by (simp add: unique_student_session_def)
qed

lemma log_anomaly_attendances:
  "attendances (fst (log_anomaly db t r i s sev d ip dev now)) = attendances db"
  by (simp add: log_anomaly_def add_anomaly_def Let_def)

lemma resolve_anomaly_attendances:
  "resolve_anomaly db a u n now = Inr (db', r) \<Longrightarrow> attendances db' = attendances db"
  by (auto simp: resolve_anomaly_def Let_def split: sum.splits option.splits)

lemma apply_op_unique:
  assumes "unique_student_session db" "apply_op db op = Inr db'"
  shows "unique_student_session db'"
proof (cases op)
  case (Pair now c)
  show ?thesis
  proof (cases c)
    case (MarkAttendance vs request ip)
    with assms Pair show ?thesis
      by (auto split: sum.splits dest: mark_attendance_unique)
  next
    case (LogAnomaly t r i s sev d ip dev)
    with assms Pair show ?thesis
      by (auto simp: unique_student_session_def log_anomaly_attendances)
  next
    case (ResolveAnomaly a u n)
    with assms Pair show ?thesis
      by (auto simp: unique_student_session_def split: sum.splits
          dest: resolve_anomaly_attendances)
  qed
qed

lemma run_unique:
  "unique_student_session db \<Longrightarrow> run db ops = Inr db' \<Longrightarrow> unique_student_session db'"
proof (induction ops arbitrary: db)
  case Nil
  then show ?case by simp
next
  case (Cons op ops)
  then show ?case
    by (auto split: sum.splits dest: apply_op_unique)
qed

lemma demo_context:
  "get_student (demo_store b rows) (req_student_id (demo_request f i p))
     = Inr (Some demo_student)"
  "get_session (demo_store b rows) (req_session_id (demo_request f i p))
     = Inr (Some \<lparr> se_id = 10, se_is_active = b \<rparr>)"
  "check_existing_attendance (demo_store b []) (req_student_id (demo_request f i p))
     (req_session_id (demo_request f i p)) = Inr None"
  "check_existing_attendance (demo_store b [demo_row]) (req_student_id (demo_request f i p))
     (req_session_id (demo_request f i p)) = Inr (Some demo_row)"
  by (simp_all add: demo_lookups)

lemma demo_first_mark:
  "mark_attendance demo_service (demo_store True [])
     (demo_request (Some ''face'') None (Some ''token'')) None 100 =
   Inr (demo_store True [demo_row], Some demo_row,
     \<lparr> success = True, face_verified = True, face_confidence = 0.92,
       id_card_verified = False, id_card_confidence = 0,
       fingerprint_verified = True, overall_confidence = 0.65,
       verification_method = ''face+fingerprint'',
       message = ''Two-factor verification: 2/2 passed'',
       anomaly_detected = False,
       anomaly_reason = None \<rparr>,
     [FaceComparator ''E1'' ''face'', FingerprintComparator ''token'' ''H1''])"
proof -
  have v: "verify_student demo_service (s_roll_no demo_student) (s_name demo_student)
     (s_face_embedding demo_student) (s_fingerprint_hash demo_student)
     (req_face_image (demo_request (Some ''face'') None (Some ''token'')))
     (req_id_card_image (demo_request (Some ''face'') None (Some ''token'')))
     (req_fingerprint_token (demo_request (Some ''face'') None (Some ''token''))) =
     (\<lparr> success = True, face_verified = True, face_confidence = 0.92,
       id_card_verified = False, id_card_confidence = 0,
       fingerprint_verified = True, overall_confidence = 0.65,
       verification_method = ''face+fingerprint'',
       message = ''Two-factor verification: 2/2 passed'',
       anomaly_detected = False,
       anomaly_reason = None \<rparr>,
     [FaceComparator ''E1'' ''face'', FingerprintComparator ''token'' ''H1''])"
    by (simp add: demo_lookups demo_verify_face_fingerprint)
  have "se_is_active \<lparr> se_id = 10, se_is_active = True \<rparr>" by simp
  from mark_attendance_verified [OF demo_context(1) demo_context(2) this demo_context(3)
      demo_lookups(10) v, of None 100]
  show ?thesis
    by (simp add: demo_store_def demo_row_def present_row_def demo_request_def)
qed

lemma demo_unique:
  "unique_student_session (demo_store b [])" "unique_student_session (demo_store b [demo_row])"
  by (simp_all add: unique_student_session_def demo_store_def)

text \<open>The anomaly table under the operations of the core and under runs.\<close>

lemma resolve_anomaly_logs:
  assumes "resolve_anomaly db key u n now = Inr (db', r)"
  shows "anomaly_logs db' = map (resolution_of (now, ResolveAnomaly key u n)) (anomaly_logs db)"
proof (cases "scalar_one_or_none (filter (\<lambda>a. anom_id a = key) (anomaly_logs db))")
  case (Inl e)
  with assms show ?thesis by (simp add: resolve_anomaly_def)
next
  case (Inr ro)
  show ?thesis
  proof (cases ro)
    case None
    with Inr have "filter (\<lambda>a. anom_id a = key) (anomaly_logs db) = []"
      by (simp add: scalar_one_or_none_None)
    then have "\<forall>a \<in> set (anomaly_logs db). anom_id a \<noteq> key"
      by (simp add: filter_empty_conv)
    then have "map (resolution_of (now, ResolveAnomaly key u n)) (anomaly_logs db)
                 = anomaly_logs db"
      by (intro map_idI) simp
    moreover from assms Inr None have "db' = db" by (simp add: resolve_anomaly_def)
    ultimately show ?thesis by simp
  next
    case (Some x)
    with Inr have f: "filter (\<lambda>a. anom_id a = key) (anomaly_logs db) = [x]"
      by (simp add: scalar_one_or_none_Some)
    have "a = x" if "a \<in> set (anomaly_logs db)" "anom_id a = key" for a
    proof -
      from that have "a \<in> set (filter (\<lambda>a. anom_id a = key) (anomaly_logs db))" by simp
      with f show ?thesis by simp
    qed
    then have "map (\<lambda>a. if anom_id a = key
                  then x\<lparr>anom_is_resolved := True, anom_resolved_by := Some u,
                         anom_resolution_notes := Some n, anom_resolved_at := Some now\<rparr>
                  else a) (anomaly_logs db)
             = map (resolution_of (now, ResolveAnomaly key u n)) (anomaly_logs db)"
      by (intro map_cong) auto
    moreover from assms Inr Some have "anomaly_logs db' =
       map (\<lambda>a. if anom_id a = key
                  then x\<lparr>anom_is_resolved := True, anom_resolved_by := Some u,
                         anom_resolution_notes := Some n, anom_resolved_at := Some now\<rparr>
                  else a) (anomaly_logs db)"
      by (auto simp: resolve_anomaly_def Let_def)
    ultimately show ?thesis by simp
  qed
qed

lemma mark_attendance_logs:
  assumes out: "mark_attendance vs db request ip now = Inr (db', att, res, calls)"
  shows "\<exists>extra. anomaly_logs db' = anomaly_logs db @ extra"
  using out
proof (cases rule: mark_attendance_cases)
  case (verified student session)
  show ?thesis unfolding verified(7) by simp
qed simp_all

lemma log_anomaly_logs:
  "\<exists>extra. anomaly_logs (fst (log_anomaly db t r i s sev d ip dev now))
     = anomaly_logs db @ extra"
  by (simp add: log_anomaly_def add_anomaly_def Let_def)

lemma resolution_of_other:
  "resolution_of (now, MarkAttendance vs request ip) = (\<lambda>a. a)"
  "resolution_of (now, LogAnomaly t r i s sev d ip dev) = (\<lambda>a. a)"
  by (rule ext, simp)+

lemma apply_op_logs:
  assumes "apply_op db op = Inr db'"
  shows "\<exists>extra. anomaly_logs db' = map (resolution_of op) (anomaly_logs db) @ extra"
proof (cases op)
  case (Pair now c)
  show ?thesis
  proof (cases c)
    case (MarkAttendance vs request ip)
    with assms Pair obtain att res calls where
      "mark_attendance vs db request ip now = Inr (db', att, res, calls)"
      by (auto split: sum.splits)
    from mark_attendance_logs [OF this] Pair MarkAttendance show ?thesis
      by (simp add: resolution_of_other)
  next
    case (LogAnomaly t r i s sev d ip dev)
    with assms Pair log_anomaly_logs [of db t r i s sev d ip dev now] show ?thesis
      by (auto simp: resolution_of_other)
  next
    case (ResolveAnomaly key u n)
    with assms Pair obtain r where "resolve_anomaly db key u n now = Inr (db', r)"
      by (auto split: sum.splits)
    from resolve_anomaly_logs [OF this] Pair ResolveAnomaly show ?thesis by simp
  qed
qed

lemma run_logs:
  "run db ops = Inr db' \<Longrightarrow>
     \<exists>extra. anomaly_logs db' = map (fold resolution_of ops) (anomaly_logs db) @ extra"
proof (induction ops arbitrary: db)
  case Nil
  then show ?case by simp
next
  case (Cons op ops)
  from Cons.prems obtain db1 where s: "apply_op db op = Inr db1" and r: "run db1 ops = Inr db'"
    by (auto split: sum.splits)
  from apply_op_logs [OF s] obtain e1 where
    e1: "anomaly_logs db1 = map (resolution_of op) (anomaly_logs db) @ e1" by blast
  from Cons.IH [OF r] obtain e2 where
    e2: "anomaly_logs db' = map (fold resolution_of ops) (anomaly_logs db1) @ e2" by blast
  show ?case unfolding e2 e1 by simp
qed

lemma resolution_of_keeps:
  "(resolution_of op a)\<lparr>anom_is_resolved := anom_is_resolved b,
       anom_resolved_by := anom_resolved_by b,
       anom_resolution_notes := anom_resolution_notes b,
       anom_resolved_at := anom_resolved_at b\<rparr>
   = a\<lparr>anom_is_resolved := anom_is_resolved b,
       anom_resolved_by := anom_resolved_by b,
       anom_resolution_notes := anom_resolution_notes b,
       anom_resolved_at := anom_resolved_at b\<rparr>"
  "anom_id (resolution_of op a) = anom_id a"
  "anom_is_resolved a \<Longrightarrow> anom_is_resolved (resolution_of op a)"
  "\<not> resolves (anom_id a) op \<Longrightarrow> resolution_of op a = a"
  by (cases op; cases "snd op"; simp)+

lemma fold_resolution_of_keeps:
  "(fold resolution_of ops a)\<lparr>anom_is_resolved := anom_is_resolved b,
       anom_resolved_by := anom_resolved_by b,
       anom_resolution_notes := anom_resolution_notes b,
       anom_resolved_at := anom_resolved_at b\<rparr>
   = a\<lparr>anom_is_resolved := anom_is_resolved b,
       anom_resolved_by := anom_resolved_by b,
       anom_resolution_notes := anom_resolution_notes b,
       anom_resolved_at := anom_resolved_at b\<rparr>"
  by (induction ops arbitrary: a) (simp_all add: resolution_of_keeps(1))

lemma fold_resolution_of_id: "anom_id (fold resolution_of ops a) = anom_id a"
  by (induction ops arbitrary: a) (simp_all add: resolution_of_keeps(2))

lemma fold_resolution_of_resolved:
  "anom_is_resolved a \<Longrightarrow> anom_is_resolved (fold resolution_of ops a)"
  by (induction ops arbitrary: a) (simp_all add: resolution_of_keeps(3))

lemma fold_resolution_of_untouched:
  "\<not> list_ex (resolves (anom_id a)) ops \<Longrightarrow> fold resolution_of ops a = a"
  by (induction ops arbitrary: a) (simp_all add: resolution_of_keeps(4))

lemma demo_resolve:
  "resolve_anomaly (demo_anomaly_store demo_anomaly) 1 7 ''false alarm'' 200
     = Inr (demo_anomaly_store (demo_resolved 7 ''false alarm'' 200),
            Some (demo_resolved 7 ''false alarm'' 200))"
  "resolve_anomaly (demo_anomaly_store (demo_resolved 7 ''false alarm'' 200)) 1 8
       ''reopened'' 300
     = Inr (demo_anomaly_store (demo_resolved 8 ''reopened'' 300),
            Some (demo_resolved 8 ''reopened'' 300))"
  by (simp_all add: resolve_anomaly_def demo_anomaly_store_def demo_resolved_def
      demo_anomaly_def Let_def)

text \<open>The duplicate-face scan: the loop as a running best over the reported matches.\<close>

lemma find_matching_face_loop_best_from:
  "(fst (find_matching_face_loop self img (bm, bc, rng) xs),
    fst (snd (find_matching_face_loop self img (bm, bc, rng) xs)))
     = best_from (bm, bc) (reported_matches self img rng xs)"
proof (induction xs arbitrary: bm bc rng)
  case Nil
  show ?case by simp
next
  case (Cons x xs)
  obtain sid bytes where x: "x = (sid, bytes)" by (cases x)
  show ?case
  proof (cases "deserialize_embedding self bytes")
    case None
    then show ?thesis by (simp add: x Cons.IH)
  next
    case (Some stored)
    obtain m c r where mc: "compare_faces self stored img rng = ((m, c), r)"
      by (cases "compare_faces self stored img rng") auto
    show ?thesis by (simp add: x Some mc Cons.IH)
  qed
qed

lemma best_from_none_higher:
  "\<forall>p \<in> set ms. snd p \<le> bc \<Longrightarrow> best_from (bm, bc) ms = (bm, bc)"
  by (induction ms) auto

lemma best_from_first_highest:
  assumes "\<forall>p \<in> set pre. snd p < c" "\<forall>p \<in> set post. snd p \<le> c" "bc < c"
  shows "best_from (bm, bc) (pre @ (i, c) # post) = (Some i, c)"
  using assms
proof (induction pre arbitrary: bm bc)
  case Nil
  then show ?case by (simp add: best_from_none_higher)
next
  case (Cons p pre)
  obtain j d where p: "p = (j, d)" by (cases p)
  from Cons.prems p have d: "d < c" by simp
  show ?case
  proof (cases "d > bc")
    case True
    with Cons.IH [of d "Some j"] Cons.prems d show ?thesis by (simp add: p)
  next
    case False
    with Cons.IH [of bc bm] Cons.prems show ?thesis by (simp add: p)
  qed
qed

lemma first_highest_exists:
  "ms \<noteq> [] \<Longrightarrow>
     \<exists>pre i c post. ms = pre @ (i, c) # post
        \<and> (\<forall>p \<in> set pre. snd p < c) \<and> (\<forall>p \<in> set post. snd p \<le> (c::real))"
proof (induction ms)
  case Nil
  then show ?case by simp
next
  case (Cons x ms)
  obtain j d where x: "x = (j, d)" by (cases x)
  show ?case
  proof (cases "ms = []")
    case True
    have "x # ms = [] @ (j, d) # []" by (simp add: x True)
    then show ?thesis by (metis empty_iff list.set(1))
  next
    case False
    from Cons.IH [OF False] obtain pre i c post where
      d: "ms = pre @ (i, c) # post" "\<forall>p \<in> set pre. snd p < c" "\<forall>p \<in> set post. snd p \<le> c"
      by blast
    show ?thesis
    proof (cases "c \<le> d")
      case True
      have "x # ms = [] @ (j, d) # ms" by (simp add: x)
      moreover have "\<forall>p \<in> set ms. snd p \<le> d" using d True by auto
      ultimately show ?thesis by (metis empty_iff list.set(1))
    next
      case False
      have "x # ms = (x # pre) @ (i, c) # post" by (simp add: d(1))
      moreover have "\<forall>p \<in> set (x # pre). snd p < c" using d(2) False by (simp add: x)
      ultimately show ?thesis using d(3) by blast
    qed
  qed
qed

lemma best_from_characterised:
  "(if \<forall>p \<in> set ms. snd p \<le> bc then best_from (bm, bc) ms = (bm, bc)
    else \<exists>pre i c post. ms = pre @ (i, c) # post \<and> bc < c
        \<and> (\<forall>p \<in> set pre. snd p < c) \<and> (\<forall>p \<in> set post. snd p \<le> c)
        \<and> best_from (bm, bc) ms = (Some i, c))"
proof (cases "\<forall>p \<in> set ms. snd p \<le> bc")
  case True
  then show ?thesis by (simp add: best_from_none_higher)
next
  case False
  then obtain q where q: "q \<in> set ms" "bc < snd q" by auto
  then have "ms \<noteq> []" by auto
  from first_highest_exists [OF this] obtain pre i c post where
    d: "ms = pre @ (i, c) # post" "\<forall>p \<in> set pre. snd p < c" "\<forall>p \<in> set post. snd p \<le> c"
    by blast
  from q d have "snd q \<le> c" by auto
  with q have c: "bc < c" by simp
  from best_from_first_highest [OF d(2) d(3) c] d c False show ?thesis by auto
qed

text \<open>
  A classified match has a confidence above \<open>0\<close>: in fallback mode it is above \<open>0.8\<close>,
  in library mode it is \<open>1 - distance\<close> with the distance within the tolerance.
\<close>

lemma compare_faces_match:
  "compare_faces self stored img rng = ((True, c), r) \<Longrightarrow> tolerance self < 1 \<Longrightarrow> 0 < c"
  by (auto simp: compare_faces_def Let_def split: if_splits prod.splits option.splits)

lemma compare_faces_no_embedding:
  "fst (generate_embedding self img rng) = None \<Longrightarrow>
     compare_faces self stored img r = ((False, 0), r)"
  by (auto simp: compare_faces_def generate_embedding_def
      split: if_splits prod.splits option.splits)

lemma reported_matches_no_embedding:
  "fst (generate_embedding self img rng) = None \<Longrightarrow> reported_matches self img r embs = []"
proof (induction embs arbitrary: r)
  case Nil
  show ?case by simp
next
  case (Cons x embs)
  obtain sid bytes where x: "x = (sid, bytes)" by (cases x)
  from Cons show ?case
    by (simp add: x compare_faces_no_embedding [of self img rng] split: option.splits)
qed

lemma reported_matches_sound:
  "(i, c) \<in> set (reported_matches self img rng embs) \<Longrightarrow>
     i \<in> fst ` set embs \<and> (\<exists>stored r r'. compare_faces self stored img r = ((True, c), r'))"
proof (induction embs arbitrary: rng)
  case Nil
  then show ?case by simp
next
  case (Cons x embs)
  obtain sid bytes where x: "x = (sid, bytes)" by (cases x)
  show ?case
  proof (cases "deserialize_embedding self bytes")
    case None
    with Cons.prems x have "(i, c) \<in> set (reported_matches self img rng embs)" by simp
    from Cons.IH [OF this] show ?thesis by auto
  next
    case (Some stored)
    obtain m d r where md: "compare_faces self stored img rng = ((m, d), r)"
      by (cases "compare_faces self stored img rng") auto
    show ?thesis
    proof (cases "(i, c) \<in> set (reported_matches self img r embs)")
      case True
      from Cons.IH [OF this] show ?thesis by auto
    next
      case False
      with Cons.prems x Some md have "m" "i = sid" "c = d"
        by (auto split: if_splits)
      with md show ?thesis by (auto simp: x)
    qed
  qed
qed

lemma reported_matches_positive:
  assumes "tolerance self < 1" "p \<in> set (reported_matches self img rng embs)"
  shows "0 < snd p"
proof -
  obtain i c where p: "p = (i, c)" by (cases p)
  from reported_matches_sound [of i c self img rng embs] assms(2) p
  obtain stored r r' where "compare_faces self stored img r = ((True, c), r')" by blast
  from compare_faces_match [OF this assms(1)] p show ?thesis by simp
qed

lemma find_matching_face_best_from:
  "fst (find_matching_face self img embs rng) =
     (case best_from (None, 0)
             (reported_matches self img (snd (generate_embedding self img rng)) embs) of
        (Some i, c) \<Rightarrow> Some (i, c) | (None, _) \<Rightarrow> None)"
proof -
  obtain e r where g: "generate_embedding self img rng = (e, r)"
    by (cases "generate_embedding self img rng")
  show ?thesis
  proof (cases e)
    case None
    with g have "fst (generate_embedding self img rng) = None" by simp
    from reported_matches_no_embedding [OF this]
    show ?thesis by (simp add: find_matching_face_def g None)
  next
    case (Some new_embedding)
    obtain a b r' where l: "find_matching_face_loop self img (None, 0, r) embs = (a, b, r')"
      by (cases "find_matching_face_loop self img (None, 0, r) embs") auto
    from find_matching_face_loop_best_from [of self img None 0 r embs]
    have "best_from (None, 0) (reported_matches self img r embs) = (a, b)"
      by (simp add: l)
    then show ?thesis
      by (cases a) (simp_all add: find_matching_face_def g Some l)
  qed
qed

lemma find_matching_face_Nil: "fst (find_matching_face self img [] rng) = None"
  by (simp add: find_matching_face_best_from)

lemma check_duplicate_face_unfold:
  "fst (check_duplicate_face self db b64 claiming college rng) =
     (case decode_base64_image self b64 of
        None \<Rightarrow> None
      | Some img \<Rightarrow> map_option fst
          (fst (find_matching_face self img (other_students_with_face db claiming college)
                  rng)))"
proof (cases "decode_base64_image self b64")
  case None
  then show ?thesis by (simp add: check_duplicate_face_def Let_def)
next
  case (Some img)
  obtain m r where f: "find_matching_face self img
      (other_students_with_face db claiming college) rng = (m, r)"
    by (cases "find_matching_face self img (other_students_with_face db claiming college) rng")
  show ?thesis
  proof (cases "other_students_with_face db claiming college = []")
    case True
    with find_matching_face_Nil [of self img rng]
    show ?thesis by (simp add: check_duplicate_face_def Let_def Some)
  next
    case False
    then show ?thesis
      by (cases m) (auto simp: check_duplicate_face_def Let_def Some f)
  qed
qed

lemma other_students_with_face_ids:
  "i \<in> fst ` set (other_students_with_face db claiming college) \<Longrightarrow>
     i \<noteq> claiming \<and> (\<exists>s \<in> set (students db). s_id s = i \<and> s_college_id s = college
        \<and> s_face_embedding s \<noteq> None)"
  by (auto simp: other_students_with_face_def)

lemma find_matching_face_first_highest:
  assumes tol: "tolerance self < 1"
  shows "if reported_matches self img (snd (generate_embedding self img rng)) embs = []
    then fst (find_matching_face self img embs rng) = None
    else \<exists>pre i c post.
           reported_matches self img (snd (generate_embedding self img rng)) embs
             = pre @ (i, c) # post
         \<and> (\<forall>p \<in> set pre. snd p < c) \<and> (\<forall>p \<in> set post. snd p \<le> c)
         \<and> i \<in> fst ` set embs
         \<and> fst (find_matching_face self img embs rng) = Some (i, c)"
proof (cases "reported_matches self img (snd (generate_embedding self img rng)) embs = []")
  case True
  then show ?thesis by (simp add: find_matching_face_best_from)
next
  case False
  then obtain q where
    q: "q \<in> set (reported_matches self img (snd (generate_embedding self img rng)) embs)"
    by (cases "reported_matches self img (snd (generate_embedding self img rng)) embs") auto
  from reported_matches_positive [OF tol q]
  have "\<not> (\<forall>p \<in> set (reported_matches self img (snd (generate_embedding self img rng)) embs).
            snd p \<le> 0)"
    using q by force
  with best_from_characterised
    [of "reported_matches self img (snd (generate_embedding self img rng)) embs" 0 None]
  obtain pre i c post where
    d: "reported_matches self img (snd (generate_embedding self img rng)) embs
          = pre @ (i, c) # post"
      "\<forall>p \<in> set pre. snd p < c" "\<forall>p \<in> set post. snd p \<le> c"
      "best_from (None, 0)
         (reported_matches self img (snd (generate_embedding self img rng)) embs) = (Some i, c)"
    by auto
  from d(4) have f: "fst (find_matching_face self img embs rng) = Some (i, c)"
    by (simp add: find_matching_face_best_from)
  from d(1) have
    "(i, c) \<in> set (reported_matches self img (snd (generate_embedding self img rng)) embs)"
    by simp
  with reported_matches_sound have "i \<in> fst ` set embs" by blast
  with d(1-3) f False show ?thesis by auto
qed

lemma demo_candidates:
  "other_students_with_face demo_college 2 ''C1'' = [(1, ''E1''), (3, ''E3'')]"
  by (simp add: other_students_with_face_def demo_college_def demo_store_def
      demo_student_def demo_claimant_def demo_third_def)

lemma demo_face_service_fields:
  "deserialize_embedding (demo_face_service tol d1 d3) ''E1'' = Some [d1]"
  "deserialize_embedding (demo_face_service tol d1 d3) ''E3'' = Some [d3]"
  "decode_base64_image (demo_face_service tol d1 d3) b = Some [0]"
  "tolerance (demo_face_service tol d1 d3) = tol"
  "generate_embedding (demo_face_service tol d1 d3) img rng = (Some [0], rng)"
  by (simp_all add: demo_face_service_def generate_embedding_def)

lemma demo_compare_faces:
  "compare_faces (demo_face_service tol d1 d3) [d] img rng = ((d \<le> tol, 1 - d), rng)"
  by (simp add: compare_faces_def demo_face_service_def generate_embedding_def)

lemma demo_reported_matches:
  "reported_matches (demo_face_service tol d1 d3) img rng [(1, ''E1''), (3, ''E3'')]
     = (if d1 \<le> tol then [(1, 1 - d1)] else []) @ (if d3 \<le> tol then [(3, 1 - d3)] else [])"
  by (simp add: demo_face_service_fields demo_compare_faces)

lemma demo_simulated_service_fields:
  "deserialize_embedding demo_simulated_service ''E1'' = Some [0]"
  "deserialize_embedding demo_simulated_service ''E3'' = Some [0]"
  "decode_base64_image demo_simulated_service b = Some [0]"
  "tolerance demo_simulated_service = 0.6"
  "generate_embedding demo_simulated_service img rng = (Some [], rng + 1)"
  "compare_faces demo_simulated_service stored img rng
     = ((if rng = 1 then False else True, if rng = 1 then 0.75 else 0.9), rng + 1)"
  by (simp_all add: demo_simulated_service_def demo_face_service_def generate_embedding_def
      compare_faces_def)

lemma demo_simulated_matches:
  "reported_matches demo_simulated_service img 1 [(1, ''E1''), (3, ''E3'')] = [(3, 0.9)]"
  by (simp add: demo_simulated_service_fields)

lemma applicable_methods_mem:
  "(''face'' \<in> set (applicable_methods a b c)) = a"
  "(''id_card'' \<in> set (applicable_methods a b c)) = b"
  "(''fingerprint'' \<in> set (applicable_methods a b c)) = c"
  "(applicable_methods a b c = []) = (\<not> a \<and> \<not> b \<and> \<not> c)"
  by (cases a; cases b; cases c; simp add: applicable_methods_def)+

subsection \<open>Failure as data\<close>

text \<open>
  Claim C5. A verification failure is data. For every call, \<open>verify_student\<close> sets
  \<open>anomaly_detected\<close> exactly when \<open>success\<close> is false, and then with a non-empty
  \<open>anomaly_reason\<close>; a success leaves the flag unset and the reason \<^verbatim>\<open>None\<close>. In
  \<open>mark_attendance\<close>, once the checks before the verification have passed, the call
  returns (no exception), and a result with \<open>anomaly_detected\<close> persists exactly one
  anomaly row, a result without it none.
\<close>

theorem verification_failure_is_data:
  assumes st: "get_student db (req_student_id request) = Inr (Some student)"
    and se: "get_session db (req_session_id request) = Inr (Some session)"
    and active: "se_is_active session"
    and fresh: "check_existing_attendance db (req_student_id request) (req_session_id request)
                  = Inr None"
    and enrolled: "s_is_enrolled student"
    and vr: "verify_student vs (s_roll_no student) (s_name student)
             (s_face_embedding student) (s_fingerprint_hash student)
             (req_face_image request) (req_id_card_image request)
             (req_fingerprint_token request) = (vr, calls)"
  shows "(\<forall>self roll name sf sh fi ci ft.
            anomaly_detected (fst (verify_student self roll name sf sh fi ci ft))
              = (\<not> success (fst (verify_student self roll name sf sh fi ci ft)))
          \<and> truthy (anomaly_reason (fst (verify_student self roll name sf sh fi ci ft)))
              = (\<not> success (fst (verify_student self roll name sf sh fi ci ft)))
          \<and> (anomaly_reason (fst (verify_student self roll name sf sh fi ci ft)) = None)
              = success (fst (verify_student self roll name sf sh fi ci ft)))
       \<and> (\<exists>db' att. mark_attendance vs db request ip now = Inr (db', att, vr, calls)
            \<and> anomaly_logs db' = anomaly_logs db
                 @ (if anomaly_detected vr then [failure_row db request ip now vr] else [])
            \<and> length (anomaly_logs db')
                 = length (anomaly_logs db) + (if anomaly_detected vr then 1 else 0)
            \<and> (att = None) = anomaly_detected vr)"
proof -
  have a: "anomaly_detected vr = (\<not> success vr)"
    using verify_student_anomaly_iff_failure
      [of vs "s_roll_no student" "s_name student" "s_face_embedding student"
        "s_fingerprint_hash student" "req_face_image request" "req_id_card_image request"
        "req_fingerprint_token request"]
    by (simp add: vr)
  show ?thesis
    using a
    by (simp add: mark_attendance_verified [OF st se active fresh enrolled vr]
        verify_student_anomaly_iff_failure verify_student_reason)
qed

theorem verification_failure_is_data_witness:
  "\<exists>db' att res calls.
      mark_attendance demo_service (demo_store True []) (demo_request None (Some ''card'') None)
        None 100 = Inr (db', att, res, calls)
      \<and> \<not> success res \<and> anomaly_detected res
      \<and> anomaly_reason res = Some ''Single factor verification failed: id_card''
      \<and> length (anomaly_logs db') = 1 \<and> att = None"
proof -
  let ?vr = "\<lparr> success = False, face_verified = False, face_confidence = 0,
      id_card_verified = False, id_card_confidence = 0.1,
      fingerprint_verified = False, overall_confidence = 0.03,
      verification_method = ''id_card'',
      message = ''Single factor (id_card) verification'',
      anomaly_detected = True,
      anomaly_reason = Some ''Single factor verification failed: id_card'' \<rparr>"
  have "\<exists>db' att. mark_attendance demo_service (demo_store True [])
           (demo_request None (Some ''card'') None) None 100
         = Inr (db', att, ?vr, [IdCardComparator ''card'' ''CS2024001'' ''John Doe''])
       \<and> anomaly_logs db' = anomaly_logs (demo_store True [])
            @ (if anomaly_detected ?vr
               then [failure_row (demo_store True [])
                       (demo_request None (Some ''card'') None) None 100 ?vr] else [])
       \<and> length (anomaly_logs db')
            = length (anomaly_logs (demo_store True []))
               + (if anomaly_detected ?vr then 1 else 0)
       \<and> (att = None) = anomaly_detected ?vr"
    by (rule conjunct2 [OF verification_failure_is_data [of "demo_store True []"
      "demo_request None (Some ''card'') None" demo_student
      "\<lparr> se_id = 10, se_is_active = True \<rparr>" demo_service ?vr
      "[IdCardComparator ''card'' ''CS2024001'' ''John Doe'']" None 100]])
      (simp_all add: demo_lookups demo_verify_id_only)
  then obtain db' att where
    "mark_attendance demo_service (demo_store True [])
           (demo_request None (Some ''card'') None) None 100
         = Inr (db', att, ?vr, [IdCardComparator ''card'' ''CS2024001'' ''John Doe''])"
    "length (anomaly_logs db')
            = length (anomaly_logs (demo_store True []))
               + (if anomaly_detected ?vr then 1 else 0)"
    "(att = None) = anomaly_detected ?vr"
    by blast
  then show ?thesis
    by (simp add: demo_store_def)
qed

subsection \<open>Hard errors\<close>

text \<open>
  Claim C7. A mark attempt that hits a hard error (session not open for marking, record
  already there, student not enrolled) is rejected before any verification: no comparator
  is called, the store is returned unchanged (no attendance row, no anomaly row), and the
  result carries no anomaly flag.
\<close>

theorem hard_errors_persist_nothing:
  assumes st: "get_student db (req_student_id request) = Inr (Some student)"
    and se: "get_session db (req_session_id request) = Inr (Some session)"
    and hard: "\<not> se_is_active session
       \<or> (\<exists>existing. check_existing_attendance db (req_student_id request)
              (req_session_id request) = Inr (Some existing))
       \<or> (check_existing_attendance db (req_student_id request) (req_session_id request)
              = Inr None \<and> \<not> s_is_enrolled student)"
  shows "\<exists>res. mark_attendance vs db request ip now = Inr (db, None, res, [])
           \<and> \<not> success res \<and> \<not> anomaly_detected res
           \<and> message res =
               (if \<not> se_is_active session
                  then ''Session is not active for attendance marking''
                else if check_existing_attendance db (req_student_id request)
                          (req_session_id request) = Inr None
                  then ''Student biometrics not enrolled. Please complete enrollment first.''
                else ''Attendance already marked for this session'')"
proof (cases "se_is_active session")
  case False
  then show ?thesis
    by (simp add: mark_attendance_hard_error(1) [OF st se] rejected_fields)
next
  case True
  from hard True consider
      (existing) existing where "check_existing_attendance db (req_student_id request)
              (req_session_id request) = Inr (Some existing)"
    | (unenrolled) "check_existing_attendance db (req_student_id request) (req_session_id request)
              = Inr None" "\<not> s_is_enrolled student"
    by blast
  then show ?thesis
  proof cases
    case existing
    then show ?thesis using True
      by (simp add: mark_attendance_hard_error(2) [OF st se] rejected_fields)
  next
    case unenrolled
    then show ?thesis using True
      by (simp add: mark_attendance_hard_error(3) [OF st se] rejected_fields)
  qed
qed

theorem hard_errors_persist_nothing_witness:
  "(\<exists>res. mark_attendance demo_service (demo_store False [])
        (demo_request (Some ''face'') None None) None 100
          = Inr (demo_store False [], None, res, [])
        \<and> message res = ''Session is not active for attendance marking'')
   \<and> (\<exists>res. mark_attendance demo_service (demo_store True [demo_row])
        (demo_request (Some ''face'') None None) None 100
          = Inr (demo_store True [demo_row], None, res, [])
        \<and> message res = ''Attendance already marked for this session'')"
proof -
  have a: "\<exists>res. mark_attendance demo_service (demo_store False [])
        (demo_request (Some ''face'') None None) None 100
          = Inr (demo_store False [], None, res, [])
        \<and> \<not> success res \<and> \<not> anomaly_detected res
        \<and> message res = ''Session is not active for attendance marking''"
    using hard_errors_persist_nothing [of "demo_store False []"
      "demo_request (Some ''face'') None None" demo_student
      "\<lparr> se_id = 10, se_is_active = False \<rparr>" demo_service None 100]
    by (simp add: demo_lookups)
  have b: "\<exists>res. mark_attendance demo_service (demo_store True [demo_row])
        (demo_request (Some ''face'') None None) None 100
          = Inr (demo_store True [demo_row], None, res, [])
        \<and> \<not> success res \<and> \<not> anomaly_detected res
        \<and> message res = ''Attendance already marked for this session''"
    using hard_errors_persist_nothing [of "demo_store True [demo_row]"
      "demo_request (Some ''face'') None None" demo_student
      "\<lparr> se_id = 10, se_is_active = True \<rparr>" demo_service None 100]
    by (simp add: demo_lookups)
  from a b show ?thesis by blast
qed

text \<open>
  Claim C8, as stated (the existing-record check comes before the session-activity check,
  so an attempt on a marked pair is rejected as already marked even when the session is
  closed), fails: with a record for the pair in the table and the session closed, the
  attempt is rejected as "session not active".
\<close>

theorem existing_record_closed_session_counterexample:
  "check_existing_attendance (demo_store False [demo_row]) 1 10 = Inr (Some demo_row)
   \<and> mark_attendance demo_service (demo_store False [demo_row])
        (demo_request (Some ''face'') None (Some ''token'')) None 200
      = Inr (demo_store False [demo_row], None,
             rejected ''Session is not active for attendance marking'', [])
   \<and> message (rejected ''Session is not active for attendance marking'')
        \<noteq> ''Attendance already marked for this session''"
  by (simp add: mark_attendance_def get_student_def get_session_def check_existing_attendance_def
      demo_store_def demo_student_def demo_request_def demo_row_def rejected_fields)


text \<open>
  Claim C8, amended. \<open>mark_attendance\<close> checks the session's activity before it looks for
  an existing record: an attempt on a pair that has a record is rejected as already marked
  when the session is open for marking, and as "session not active" when it is not; in
  both cases nothing is persisted and no comparator runs.
\<close>

theorem existing_record_rejection:
  assumes st: "get_student db (req_student_id request) = Inr (Some student)"
    and se: "get_session db (req_session_id request) = Inr (Some session)"
    and existing: "check_existing_attendance db (req_student_id request)
              (req_session_id request) = Inr (Some existing)"
  shows "mark_attendance vs db request ip now =
           Inr (db, None,
             rejected (if se_is_active session
                       then ''Attendance already marked for this session''
                       else ''Session is not active for attendance marking''), [])"
  using existing
  by (cases "se_is_active session")
     (simp_all add: mark_attendance_hard_error(1,2) [OF st se])

theorem existing_record_rejection_witness:
  "mark_attendance demo_service (demo_store True [demo_row])
        (demo_request (Some ''face'') None (Some ''token'')) None 200
      = Inr (demo_store True [demo_row], None,
             rejected ''Attendance already marked for this session'', [])
   \<and> mark_attendance demo_service (demo_store False [demo_row])
        (demo_request None None None) None 200
      = Inr (demo_store False [demo_row], None,
             rejected ''Session is not active for attendance marking'', [])"
  using existing_record_rejection [of "demo_store True [demo_row]"
      "demo_request (Some ''face'') None (Some ''token'')" demo_student
      "\<lparr> se_id = 10, se_is_active = True \<rparr>" demo_row demo_service None 200]
    existing_record_rejection [of "demo_store False [demo_row]"
      "demo_request None None None" demo_student
      "\<lparr> se_id = 10, se_is_active = False \<rparr>" demo_row demo_service None 200]
  by (simp add: demo_lookups)


subsection \<open>One attendance record per student and session\<close>

text \<open>
  Claim C4, as stated (after a first successful mark, every later attempt for the same
  student and session is rejected with the already-marked error), fails in the error it
  names: the first attempt below creates the record; once the session has been closed, a
  later attempt for the same pair is rejected as "session not active". No second record
  is created.
\<close>

theorem already_marked_closed_session_counterexample:
  "mark_attendance demo_service (demo_store True [])
     (demo_request (Some ''face'') None (Some ''token'')) None 100
     = Inr (demo_store True [demo_row], Some demo_row,
         \<lparr> success = True, face_verified = True, face_confidence = 0.92,
           id_card_verified = False, id_card_confidence = 0,
           fingerprint_verified = True, overall_confidence = 0.65,
           verification_method = ''face+fingerprint'',
           message = ''Two-factor verification: 2/2 passed'',
           anomaly_detected = False,
           anomaly_reason = None \<rparr>,
         [FaceComparator ''E1'' ''face'', FingerprintComparator ''token'' ''H1''])
   \<and> (demo_store True [demo_row])\<lparr>sessions := [\<lparr> se_id = 10, se_is_active = False \<rparr>]\<rparr>
       = demo_store False [demo_row]
   \<and> mark_attendance demo_service (demo_store False [demo_row])
        (demo_request None (Some ''card'') None) None 300
      = Inr (demo_store False [demo_row], None,
             rejected ''Session is not active for attendance marking'', [])
   \<and> message (rejected ''Session is not active for attendance marking'')
        \<noteq> ''Attendance already marked for this session''"
proof -
  have closed: "mark_attendance demo_service (demo_store False [demo_row])
        (demo_request None (Some ''card'') None) None 300
      = Inr (demo_store False [demo_row], None,
             rejected ''Session is not active for attendance marking'', [])"
    by (rule mark_attendance_hard_error(1) [OF demo_context(1) demo_context(2)]) simp
  show ?thesis
    by (simp add: demo_first_mark closed rejected_fields) (simp add: demo_store_def)
qed


text \<open>
  Claim C4, amended. Under the table's uniqueness constraint: a mark attempt that passes
  the checks (student and session found, session open, student enrolled) while no row
  exists for its student and session, and whose verification succeeds, returns and changes
  the store by exactly one new attendance row, the only one of the pair. Whenever an attempt
  returns a row, it is such a first successful one. Any attempt made while a row for the
  pair exists is rejected, returns the store unchanged and calls no comparator, whatever it
  supplies; its error is the already-marked one exactly when the student and the session are
  found and the session is open for marking (the not-found and session-activity checks come
  first). The constraint holds after the attempt and after every run of core operations
  that follows, so at most one row per student and session ever exists.
\<close>

theorem mark_attendance_at_most_one_record:
  assumes uniq: "unique_student_session db"
  shows "(\<forall>student session vr cs.
            get_student db (req_student_id request) = Inr (Some student)
          \<and> get_session db (req_session_id request) = Inr (Some session)
          \<and> se_is_active session \<and> s_is_enrolled student
          \<and> records_for db (req_student_id request) (req_session_id request) = []
          \<and> verify_student vs (s_roll_no student) (s_name student)
               (s_face_embedding student) (s_fingerprint_hash student)
               (req_face_image request) (req_id_card_image request)
               (req_fingerprint_token request) = (vr, cs)
          \<and> success vr
          \<longrightarrow> mark_attendance vs db request ip now
                = Inr (db\<lparr>attendances := attendances db @ [present_row db request ip now vr],
                          attendance_seq := attendance_seq db + 1\<rparr>,
                       Some (present_row db request ip now vr), vr, cs)
              \<and> att_student_id (present_row db request ip now vr) = req_student_id request
              \<and> att_session_id (present_row db request ip now vr) = req_session_id request
              \<and> records_for
                   (db\<lparr>attendances := attendances db @ [present_row db request ip now vr],
                       attendance_seq := attendance_seq db + 1\<rparr>)
                   (req_student_id request) (req_session_id request)
                 = [present_row db request ip now vr])
       \<and> (\<forall>db' att res calls.
            mark_attendance vs db request ip now = Inr (db', att, res, calls) \<longrightarrow>
              unique_student_session db'
            \<and> (case att of
                 Some a \<Rightarrow> success res \<and> attendances db' = attendances db @ [a]
                    \<and> records_for db (req_student_id request) (req_session_id request) = []
                    \<and> records_for db' (req_student_id request) (req_session_id request) = [a]
               | None \<Rightarrow> attendances db' = attendances db)
            \<and> (if records_for db (req_student_id request) (req_session_id request) = []
               then True
               else db' = db \<and> att = None \<and> \<not> success res \<and> calls = []
                  \<and> (message res = ''Attendance already marked for this session'')
                      = (\<exists>student session.
                           get_student db (req_student_id request) = Inr (Some student)
                         \<and> get_session db (req_session_id request) = Inr (Some session)
                         \<and> se_is_active session))
            \<and> (\<forall>ops db''. run db' ops = Inr db'' \<longrightarrow> unique_student_session db''))"
proof (intro conjI allI impI)
  fix student session vr cs
  assume a: "get_student db (req_student_id request) = Inr (Some student)
          \<and> get_session db (req_session_id request) = Inr (Some session)
          \<and> se_is_active session \<and> s_is_enrolled student
          \<and> records_for db (req_student_id request) (req_session_id request) = []
          \<and> verify_student vs (s_roll_no student) (s_name student)
               (s_face_embedding student) (s_fingerprint_hash student)
               (req_face_image request) (req_id_card_image request)
               (req_fingerprint_token request) = (vr, cs)
          \<and> success vr"
  from mark_attendance_first [of db request student session vs vr cs ip now] a
  show "mark_attendance vs db request ip now
                = Inr (db\<lparr>attendances := attendances db @ [present_row db request ip now vr],
                          attendance_seq := attendance_seq db + 1\<rparr>,
                       Some (present_row db request ip now vr), vr, cs)"
    by blast
  show "att_student_id (present_row db request ip now vr) = req_student_id request"
    by (rule present_row_ids(1))
  show "att_session_id (present_row db request ip now vr) = req_session_id request"
    by (rule present_row_ids(2))
  from a show "records_for
                   (db\<lparr>attendances := attendances db @ [present_row db request ip now vr],
                       attendance_seq := attendance_seq db + 1\<rparr>)
                   (req_student_id request) (req_session_id request)
                 = [present_row db request ip now vr]"
    by (simp add: records_for_def present_row_ids)
next
  fix db' att res calls
  assume out: "mark_attendance vs db request ip now = Inr (db', att, res, calls)"
  show u: "unique_student_session db'" using uniq out by (rule mark_attendance_unique)
  show "unique_student_session db''" if "run db' ops = Inr db''" for ops db''
    using u that by (rule run_unique)
  show "case att of
            Some a \<Rightarrow> success res \<and> attendances db' = attendances db @ [a]
               \<and> records_for db (req_student_id request) (req_session_id request) = []
               \<and> records_for db' (req_student_id request) (req_session_id request) = [a]
          | None \<Rightarrow> attendances db' = attendances db"
  proof (cases att)
    case None
    with mark_attendance_attendances [OF out] show ?thesis by simp
  next
    case (Some a)
    with mark_attendance_created [of vs db request ip now db' a res calls] out
    have a: "success res" "att_student_id a = req_student_id request"
      "att_session_id a = req_session_id request"
      "records_for db (req_student_id request) (req_session_id request) = []"
      by simp_all
    from mark_attendance_attendances [OF out] Some
    have "attendances db' = attendances db @ [a]" by simp
    with a Some show ?thesis by (simp add: records_for_def)
  qed
  show "if records_for db (req_student_id request) (req_session_id request) = [] then True
          else db' = db \<and> att = None \<and> \<not> success res \<and> calls = []
             \<and> (message res = ''Attendance already marked for this session'')
                 = (\<exists>student session.
                      get_student db (req_student_id request) = Inr (Some student)
                    \<and> get_session db (req_session_id request) = Inr (Some session)
                    \<and> se_is_active session)"
  proof (cases "records_for db (req_student_id request) (req_session_id request) = []")
    case True
    then show ?thesis by simp
  next
    case False
    have "(message res = ''Attendance already marked for this session'')
                 = (\<exists>student session.
                      get_student db (req_student_id request) = Inr (Some student)
                    \<and> get_session db (req_session_id request) = Inr (Some session)
                    \<and> se_is_active session)"
      using out False
      by (cases rule: mark_attendance_cases)
         (simp_all add: rejected_fields records_for_check_existing scalar_one_or_none_None)
    with mark_attendance_existing [OF out False] False show ?thesis by simp
  qed
qed


theorem mark_attendance_at_most_one_record_witness:
  "mark_attendance demo_service (demo_store True [])
     (demo_request (Some ''face'') None (Some ''token'')) None 100
     = Inr (demo_store True [demo_row], Some demo_row,
         \<lparr> success = True, face_verified = True, face_confidence = 0.92,
           id_card_verified = False, id_card_confidence = 0,
           fingerprint_verified = True, overall_confidence = 0.65,
           verification_method = ''face+fingerprint'',
           message = ''Two-factor verification: 2/2 passed'',
           anomaly_detected = False,
           anomaly_reason = None \<rparr>,
         [FaceComparator ''E1'' ''face'', FingerprintComparator ''token'' ''H1''])
   \<and> records_for (demo_store True []) 1 10 = []
   \<and> records_for (demo_store True [demo_row]) 1 10 = [demo_row]
   \<and> unique_student_session (demo_store True [demo_row])
   \<and> mark_attendance demo_service (demo_store True [demo_row])
        (demo_request None (Some ''card'') None) None 300
      = Inr (demo_store True [demo_row], None,
             rejected ''Attendance already marked for this session'', [])"
proof -
  let ?request = "demo_request (Some ''face'') None (Some ''token'')"
  let ?vr = "\<lparr> success = True, face_verified = True, face_confidence = 0.92,
           id_card_verified = False, id_card_confidence = 0,
           fingerprint_verified = True, overall_confidence = 0.65,
           verification_method = ''face+fingerprint'',
           message = ''Two-factor verification: 2/2 passed'',
           anomaly_detected = False,
           anomaly_reason = None \<rparr>"
  let ?cs = "[FaceComparator ''E1'' ''face'', FingerprintComparator ''token'' ''H1'']"
  have fresh: "records_for (demo_store True []) 1 10 = []"
    by (simp add: records_for_def demo_store_def)
  have row: "present_row (demo_store True []) ?request None 100 ?vr = demo_row"
    by (simp add: present_row_def demo_store_def demo_row_def demo_request_def)
  have store: "(demo_store True [])\<lparr>attendances := attendances (demo_store True []) @ [demo_row],
                  attendance_seq := attendance_seq (demo_store True []) + 1\<rparr>
               = demo_store True [demo_row]"
    by (simp add: demo_store_def)
  have first_attempt:
    "get_student (demo_store True []) (req_student_id ?request) = Inr (Some demo_student)
     \<and> get_session (demo_store True []) (req_session_id ?request)
         = Inr (Some \<lparr> se_id = 10, se_is_active = True \<rparr>)
     \<and> se_is_active \<lparr> se_id = 10, se_is_active = True \<rparr> \<and> s_is_enrolled demo_student
     \<and> records_for (demo_store True []) (req_student_id ?request) (req_session_id ?request) = []
     \<and> verify_student demo_service (s_roll_no demo_student) (s_name demo_student)
          (s_face_embedding demo_student) (s_fingerprint_hash demo_student)
          (req_face_image ?request) (req_id_card_image ?request)
          (req_fingerprint_token ?request) = (?vr, ?cs)
     \<and> success ?vr"
    by (simp add: demo_context demo_lookups demo_verify_face_fingerprint fresh)
  note created = mark_attendance_at_most_one_record [OF demo_unique(1),
      where request = ?request and vs = demo_service and ip = None and now = 100,
      THEN conjunct1, rule_format, OF first_attempt]
  from created have first: "mark_attendance demo_service (demo_store True []) ?request None 100
     = Inr (demo_store True [demo_row], Some demo_row, ?vr, ?cs)"
    unfolding row store by (rule conjunct1)
  from created have only: "records_for (demo_store True [demo_row]) 1 10 = [demo_row]"
    unfolding row store demo_lookups(5) demo_lookups(6) by blast
  have again: "mark_attendance demo_service (demo_store True [demo_row])
        (demo_request None (Some ''card'') None) None 300
      = Inr (demo_store True [demo_row], None,
             rejected ''Attendance already marked for this session'', [])"
    by (rule mark_attendance_hard_error(2) [OF demo_context(1) demo_context(2) _
          demo_context(4)]) simp
  have kept: "unique_student_session (demo_store True [demo_row])"
    by (rule mark_attendance_at_most_one_record [OF demo_unique(2),
          where request = "demo_request None (Some ''card'') None" and vs = demo_service
            and ip = None and now = 300,
          THEN conjunct2, rule_format, OF again, THEN conjunct1])
  from first fresh only kept again show ?thesis by blast
qed


subsection \<open>Anomaly rows over time\<close>

text \<open>
  Claim C9, as stated (once a resolution has set \<open>resolved = true\<close> on an anomaly row,
  no later operation changes the row: resolver, notes and resolution time are fixed), fails:
  \<open>resolve_anomaly\<close> does not test \<^verbatim>\<open>is_resolved\<close>, and a second resolution of the same
  row overwrites the resolver, the notes and the time of the first.
\<close>

theorem resolved_anomaly_rewritten_counterexample:
  "resolve_anomaly (demo_anomaly_store demo_anomaly) 1 7 ''false alarm'' 200
     = Inr (demo_anomaly_store (demo_resolved 7 ''false alarm'' 200),
            Some (demo_resolved 7 ''false alarm'' 200))
   \<and> anom_is_resolved (demo_resolved 7 ''false alarm'' 200)
   \<and> resolve_anomaly (demo_anomaly_store (demo_resolved 7 ''false alarm'' 200)) 1 8
        ''reopened'' 300
     = Inr (demo_anomaly_store (demo_resolved 8 ''reopened'' 300),
            Some (demo_resolved 8 ''reopened'' 300))
   \<and> anom_resolved_by (demo_resolved 7 ''false alarm'' 200) = Some 7
   \<and> anom_resolved_by (demo_resolved 8 ''reopened'' 300) = Some 8
   \<and> anom_resolution_notes (demo_resolved 8 ''reopened'' 300) = Some ''reopened''
   \<and> anom_resolved_at (demo_resolved 8 ''reopened'' 300) = Some 300
   \<and> demo_resolved 8 ''reopened'' 300 \<noteq> demo_resolved 7 ''false alarm'' 200"
  by (simp add: demo_resolve) (simp add: demo_resolved_def demo_anomaly_def)


text \<open>
  Claim C9, amended. No operation of the core deletes an anomaly row, moves it or changes
  its key, and none changes a column other than the four resolution columns. The only
  operation that changes a row is \<open>resolve_anomaly\<close> on the row's key: each such call,
  also on a row that is already resolved, sets \<open>is_resolved\<close> and overwrites the
  resolver, the notes and the resolution time. A resolved row therefore stays resolved,
  and a row is unchanged over every run that has no resolution of its key.
\<close>

theorem anomaly_rows_kept_and_resolved:
  assumes run: "run db ops = Inr db'"
    and i: "i < length (anomaly_logs db)"
  shows "i < length (anomaly_logs db')
       \<and> anomaly_logs db' ! i = fold resolution_of ops (anomaly_logs db ! i)
       \<and> anom_id (anomaly_logs db' ! i) = anom_id (anomaly_logs db ! i)
       \<and> (anomaly_logs db' ! i)
            \<lparr>anom_is_resolved := anom_is_resolved (anomaly_logs db ! i),
             anom_resolved_by := anom_resolved_by (anomaly_logs db ! i),
             anom_resolution_notes := anom_resolution_notes (anomaly_logs db ! i),
             anom_resolved_at := anom_resolved_at (anomaly_logs db ! i)\<rparr>
           = anomaly_logs db ! i
       \<and> (if anom_is_resolved (anomaly_logs db ! i)
          then anom_is_resolved (anomaly_logs db' ! i) else True)
       \<and> (if list_ex (resolves (anom_id (anomaly_logs db ! i))) ops then True
          else anomaly_logs db' ! i = anomaly_logs db ! i)"
proof -
  from run_logs [OF run] obtain extra where
    e: "anomaly_logs db' = map (fold resolution_of ops) (anomaly_logs db) @ extra" by blast
  from e i have len: "i < length (anomaly_logs db')" by simp
  from e i have at: "anomaly_logs db' ! i = fold resolution_of ops (anomaly_logs db ! i)"
    by (simp add: nth_append)
  have keep: "(fold resolution_of ops (anomaly_logs db ! i))
            \<lparr>anom_is_resolved := anom_is_resolved (anomaly_logs db ! i),
             anom_resolved_by := anom_resolved_by (anomaly_logs db ! i),
             anom_resolution_notes := anom_resolution_notes (anomaly_logs db ! i),
             anom_resolved_at := anom_resolved_at (anomaly_logs db ! i)\<rparr>
           = anomaly_logs db ! i"
    unfolding fold_resolution_of_keeps by simp
  show ?thesis
    unfolding at
    using len keep
    by (simp add: fold_resolution_of_id fold_resolution_of_resolved
        fold_resolution_of_untouched)
qed


theorem anomaly_rows_kept_and_resolved_witness:
  "\<exists>db'. run (demo_anomaly_store demo_anomaly)
       [(200, ResolveAnomaly 1 7 ''false alarm''),
        (250, LogAnomaly ''duplicate_face'' ''Face matches another student'' (Some 1)
                (Some 10) ''high'' None None None),
        (300, ResolveAnomaly 2 8 ''checked'')] = Inr db'
     \<and> length (anomaly_logs db') = 2
     \<and> anomaly_logs db' ! 0 = demo_resolved 7 ''false alarm'' 200"
proof -
  obtain db' where r: "run (demo_anomaly_store demo_anomaly)
       [(200, ResolveAnomaly 1 7 ''false alarm''),
        (250, LogAnomaly ''duplicate_face'' ''Face matches another student'' (Some 1)
                (Some 10) ''high'' None None None),
        (300, ResolveAnomaly 2 8 ''checked'')] = Inr db'"
    and l: "length (anomaly_logs db') = 2"
    by (simp add: demo_resolve resolve_anomaly_def log_anomaly_def add_anomaly_def
        demo_anomaly_store_def demo_resolved_def demo_anomaly_def Let_def)
  from anomaly_rows_kept_and_resolved [OF r, of 0]
  have "anomaly_logs db' ! 0 = demo_resolved 7 ''false alarm'' 200"
    by (simp add: demo_anomaly_store_def demo_resolved_def demo_anomaly_def)
  with r l show ?thesis by blast
qed


subsection \<open>The duplicate-face check\<close>

text \<open>
  Claim C6, as stated (whenever the comparator classifies at least one other identity as a
  match, the check returns that identity's reference together with the comparator's
  confidence), fails for \<open>check_duplicate_face\<close>: it returns the reference alone, as its
  signature says. For a match at confidence \<open>0.9\<close> and for one at \<open>0.7\<close>, which
  \<open>find_matching_face\<close> reports with these confidences, the check gives the same value.
\<close>

theorem duplicate_face_counterexample:
  "find_matching_face (demo_face_service 0.6 0.1 0.9) [0]
        (other_students_with_face demo_college 2 ''C1'') 0 = (Some (1, 0.9), 0)
   \<and> find_matching_face (demo_face_service 0.6 0.3 0.9) [0]
        (other_students_with_face demo_college 2 ''C1'') 0 = (Some (1, 0.7), 0)
   \<and> check_duplicate_face (demo_face_service 0.6 0.1 0.9) demo_college ''img'' 2 ''C1'' 0
        = (Some 1, 0)
   \<and> check_duplicate_face (demo_face_service 0.6 0.3 0.9) demo_college ''img'' 2 ''C1'' 0
        = (Some 1, 0)"
  by (simp add: check_duplicate_face_def find_matching_face_def demo_candidates
      demo_compare_faces demo_face_service_fields)


text \<open>
  Claim C6, amended. Take a face service whose tolerance is below \<open>1\<close> (the configured
  one is \<open>0.6\<close>), in either mode. \<open>find_matching_face\<close>, over any list of stored
  embeddings, returns nothing if the scan reports no match and otherwise returns the
  reference and the reported confidence of the match with the strictly highest confidence,
  the first encountered among equals. \<open>check_duplicate_face\<close> scans all the other
  students of the college that have a stored face embedding, in table order: it returns
  nothing if the sample cannot be decoded or that scan reports no match, and otherwise the
  reference of the match \<open>find_matching_face\<close> selects among them, without the
  confidence; the reference is that of another student of the college with a stored face.
\<close>

theorem duplicate_face_first_highest_match:
  assumes tol: "tolerance self < 1"
  shows
    "(if reported_matches self img (snd (generate_embedding self img rng)) embs = []
      then fst (find_matching_face self img embs rng) = None
      else \<exists>pre i c post.
             reported_matches self img (snd (generate_embedding self img rng)) embs
               = pre @ (i, c) # post
           \<and> (\<forall>p \<in> set pre. snd p < c) \<and> (\<forall>p \<in> set post. snd p \<le> c)
           \<and> fst (find_matching_face self img embs rng) = Some (i, c))
   \<and> (let candidates =
            map (\<lambda>s. (s_id s, value_of (s_face_embedding s)))
              (filter (\<lambda>s. s_college_id s = college \<and> s_face_embedding s \<noteq> None
                          \<and> s_id s \<noteq> claiming) (students db))
       in case decode_base64_image self encoded of
            None \<Rightarrow> fst (check_duplicate_face self db encoded claiming college rng) = None
          | Some face_image \<Rightarrow>
              if reported_matches self face_image
                   (snd (generate_embedding self face_image rng)) candidates = []
              then fst (check_duplicate_face self db encoded claiming college rng) = None
              else \<exists>pre i c post.
                     reported_matches self face_image
                         (snd (generate_embedding self face_image rng)) candidates
                       = pre @ (i, c) # post
                   \<and> (\<forall>p \<in> set pre. snd p < c) \<and> (\<forall>p \<in> set post. snd p \<le> c)
                   \<and> fst (find_matching_face self face_image candidates rng) = Some (i, c)
                   \<and> fst (check_duplicate_face self db encoded claiming college rng) = Some i
                   \<and> i \<noteq> claiming
                   \<and> (\<exists>s \<in> set (students db). s_id s = i \<and> s_college_id s = college
                         \<and> s_face_embedding s \<noteq> None))"
proof (rule conjI)
  from find_matching_face_first_highest [OF tol, of img rng embs]
  show "if reported_matches self img (snd (generate_embedding self img rng)) embs = []
      then fst (find_matching_face self img embs rng) = None
      else \<exists>pre i c post.
             reported_matches self img (snd (generate_embedding self img rng)) embs
               = pre @ (i, c) # post
           \<and> (\<forall>p \<in> set pre. snd p < c) \<and> (\<forall>p \<in> set post. snd p \<le> c)
           \<and> fst (find_matching_face self img embs rng) = Some (i, c)"
    by (auto split: if_splits)
next
  have "case decode_base64_image self encoded of
            None \<Rightarrow> fst (check_duplicate_face self db encoded claiming college rng) = None
          | Some face_image \<Rightarrow>
              if reported_matches self face_image
                   (snd (generate_embedding self face_image rng))
                   (other_students_with_face db claiming college) = []
              then fst (check_duplicate_face self db encoded claiming college rng) = None
              else \<exists>pre i c post.
                     reported_matches self face_image
                         (snd (generate_embedding self face_image rng))
                         (other_students_with_face db claiming college)
                       = pre @ (i, c) # post
                   \<and> (\<forall>p \<in> set pre. snd p < c) \<and> (\<forall>p \<in> set post. snd p \<le> c)
                   \<and> fst (find_matching_face self face_image
                            (other_students_with_face db claiming college) rng) = Some (i, c)
                   \<and> fst (check_duplicate_face self db encoded claiming college rng) = Some i
                   \<and> i \<noteq> claiming
                   \<and> (\<exists>s \<in> set (students db). s_id s = i \<and> s_college_id s = college
                         \<and> s_face_embedding s \<noteq> None)"
  proof (cases "decode_base64_image self encoded")
    case None
    then show ?thesis by (simp add: check_duplicate_face_unfold)
  next
    case (Some face_image)
    show ?thesis
    proof (cases "reported_matches self face_image
                   (snd (generate_embedding self face_image rng))
                   (other_students_with_face db claiming college) = []")
      case True
      with find_matching_face_first_highest [OF tol, of face_image rng
          "other_students_with_face db claiming college"]
      show ?thesis by (simp add: Some check_duplicate_face_unfold)
    next
      case False
      with find_matching_face_first_highest [OF tol, of face_image rng
          "other_students_with_face db claiming college"]
      have "\<exists>pre i c post.
           reported_matches self face_image (snd (generate_embedding self face_image rng))
              (other_students_with_face db claiming college) = pre @ (i, c) # post
         \<and> (\<forall>p \<in> set pre. snd p < c) \<and> (\<forall>p \<in> set post. snd p \<le> c)
         \<and> i \<in> fst ` set (other_students_with_face db claiming college)
         \<and> fst (find_matching_face self face_image
                  (other_students_with_face db claiming college) rng) = Some (i, c)"
        by simp
      then obtain pre i c post where
        d: "reported_matches self face_image (snd (generate_embedding self face_image rng))
              (other_students_with_face db claiming college) = pre @ (i, c) # post"
          "\<forall>p \<in> set pre. snd p < c" "\<forall>p \<in> set post. snd p \<le> c"
          "i \<in> fst ` set (other_students_with_face db claiming college)"
          "fst (find_matching_face self face_image
                  (other_students_with_face db claiming college) rng) = Some (i, c)"
        by blast
      from d(5) have c: "fst (check_duplicate_face self db encoded claiming college rng) = Some i"
        by (simp add: Some check_duplicate_face_unfold)
      from other_students_with_face_ids [OF d(4)] d(1,2,3,5) c
      have "\<exists>pre i c post.
                     reported_matches self face_image
                         (snd (generate_embedding self face_image rng))
                         (other_students_with_face db claiming college)
                       = pre @ (i, c) # post
                   \<and> (\<forall>p \<in> set pre. snd p < c) \<and> (\<forall>p \<in> set post. snd p \<le> c)
                   \<and> fst (find_matching_face self face_image
                            (other_students_with_face db claiming college) rng) = Some (i, c)
                   \<and> fst (check_duplicate_face self db encoded claiming college rng) = Some i
                   \<and> i \<noteq> claiming
                   \<and> (\<exists>s \<in> set (students db). s_id s = i \<and> s_college_id s = college
                         \<and> s_face_embedding s \<noteq> None)"
        by blast
      with False show ?thesis by (simp add: Some)
    qed
  qed
  then show "let candidates =
            map (\<lambda>s. (s_id s, value_of (s_face_embedding s)))
              (filter (\<lambda>s. s_college_id s = college \<and> s_face_embedding s \<noteq> None
                          \<and> s_id s \<noteq> claiming) (students db))
       in case decode_base64_image self encoded of
            None \<Rightarrow> fst (check_duplicate_face self db encoded claiming college rng) = None
          | Some face_image \<Rightarrow>
              if reported_matches self face_image
                   (snd (generate_embedding self face_image rng)) candidates = []
              then fst (check_duplicate_face self db encoded claiming college rng) = None
              else \<exists>pre i c post.
                     reported_matches self face_image
                         (snd (generate_embedding self face_image rng)) candidates
                       = pre @ (i, c) # post
                   \<and> (\<forall>p \<in> set pre. snd p < c) \<and> (\<forall>p \<in> set post. snd p \<le> c)
                   \<and> fst (find_matching_face self face_image candidates rng) = Some (i, c)
                   \<and> fst (check_duplicate_face self db encoded claiming college rng) = Some i
                   \<and> i \<noteq> claiming
                   \<and> (\<exists>s \<in> set (students db). s_id s = i \<and> s_college_id s = college
                         \<and> s_face_embedding s \<noteq> None)"
    unfolding Let_def other_students_with_face_def .
qed


theorem duplicate_face_first_highest_match_witness:
  "fst (find_matching_face (demo_face_service 0.6 0.1 0.1) [0] [(1, ''E1''), (3, ''E3'')] 0)
     = Some (1, 0.9)
   \<and> fst (find_matching_face (demo_face_service 0.6 0.3 0.1) [0] [(1, ''E1''), (3, ''E3'')] 0)
     = Some (3, 0.9)
   \<and> fst (check_duplicate_face (demo_face_service 0.6 0.3 0.1) demo_college ''img'' 2 ''C1'' 0)
     = Some 3
   \<and> fst (check_duplicate_face (demo_face_service 0.6 0.7 0.9) demo_college ''img'' 2 ''C1'' 0)
     = None
   \<and> fst (check_duplicate_face demo_simulated_service demo_college ''img'' 2 ''C1'' 0)
     = Some 3"
proof -
  have tie: "fst (find_matching_face (demo_face_service 0.6 0.1 0.1) [0]
               [(1, ''E1''), (3, ''E3'')] 0) = Some (1, 0.9)"
    using duplicate_face_first_highest_match [where self = "demo_face_service 0.6 0.1 0.1"
        and img = "[0]" and rng = 0 and embs = "[(1, ''E1''), (3, ''E3'')]"
        and college = "''C1''" and claiming = 2 and db = demo_college and encoded = "''img''"]
    by (auto simp: demo_face_service_fields demo_compare_faces Cons_eq_append_conv)
  have second: "fst (find_matching_face (demo_face_service 0.6 0.3 0.1) [0]
               [(1, ''E1''), (3, ''E3'')] 0) = Some (3, 0.9)"
    using duplicate_face_first_highest_match [where self = "demo_face_service 0.6 0.3 0.1"
        and img = "[0]" and rng = 0 and embs = "[(1, ''E1''), (3, ''E3'')]"
        and college = "''C1''" and claiming = 2 and db = demo_college and encoded = "''img''"]
    by (auto simp: demo_face_service_fields demo_compare_faces Cons_eq_append_conv)
  have c: "map (\<lambda>s. (s_id s, value_of (s_face_embedding s)))
              (filter (\<lambda>s. s_college_id s = ''C1'' \<and> s_face_embedding s \<noteq> None
                          \<and> s_id s \<noteq> 2) (students demo_college))
           = [(1, ''E1''), (3, ''E3'')]"
    using demo_candidates by (simp add: other_students_with_face_def)
  have check: "fst (check_duplicate_face (demo_face_service 0.6 0.3 0.1) demo_college ''img''
               2 ''C1'' 0) = Some 3"
    using duplicate_face_first_highest_match [where self = "demo_face_service 0.6 0.3 0.1"
        and img = "[0]" and rng = 0 and embs = "[(1, ''E1''), (3, ''E3'')]"
        and college = "''C1''" and claiming = 2 and db = demo_college and encoded = "''img''"]
    unfolding Let_def c
    by (auto simp: demo_face_service_fields demo_compare_faces Cons_eq_append_conv)
  have none: "fst (check_duplicate_face (demo_face_service 0.6 0.7 0.9) demo_college ''img''
               2 ''C1'' 0) = None"
    using duplicate_face_first_highest_match [where self = "demo_face_service 0.6 0.7 0.9"
        and img = "[0]" and rng = 0 and embs = "[(1, ''E1''), (3, ''E3'')]"
        and college = "''C1''" and claiming = 2 and db = demo_college and encoded = "''img''"]
    unfolding Let_def c
    by (auto simp: demo_face_service_fields demo_compare_faces Cons_eq_append_conv)
  have simulated: "fst (check_duplicate_face demo_simulated_service demo_college ''img''
               2 ''C1'' 0) = Some 3"
    using duplicate_face_first_highest_match [where self = demo_simulated_service
        and img = "[0]" and rng = 0 and embs = "[(1, ''E1''), (3, ''E3'')]"
        and college = "''C1''" and claiming = 2 and db = demo_college and encoded = "''img''"]
    unfolding Let_def c
    by (auto simp: demo_simulated_service_fields Cons_eq_append_conv)
  from tie second check none simulated show ?thesis by simp
qed


subsection \<open>Which factors are evaluated\<close>

text \<open>
  Claim C3, as stated (each of the three factors is evaluated if and only if the caller
  supplied input for it and the claimed identity's enrolled template for that modality
  exists), fails for the ID document: the student below has no enrolled ID-card data
  (\<^verbatim>\<open>id_card_data\<close> is \<^verbatim>\<open>None\<close>), yet an attempt that supplies an ID-card image has the
  ID comparator called and \<^verbatim>\<open>id_card\<close> as its method.
\<close>

theorem id_card_without_template_counterexample:
  "s_id_card_data demo_student = None
   \<and> verify_student demo_service (s_roll_no demo_student) (s_name demo_student)
        (s_face_embedding demo_student) (s_fingerprint_hash demo_student)
        None (Some ''card'') None
      = (\<lparr> success = False, face_verified = False, face_confidence = 0,
           id_card_verified = False, id_card_confidence = 0.1,
           fingerprint_verified = False, overall_confidence = 0.03,
           verification_method = ''id_card'',
           message = ''Single factor (id_card) verification'',
           anomaly_detected = True,
           anomaly_reason = Some ''Single factor verification failed: id_card'' \<rparr>,
         [IdCardComparator ''card'' ''CS2024001'' ''John Doe''])
   \<and> (\<exists>db' att res.
         mark_attendance demo_service (demo_store True [])
           (demo_request None (Some ''card'') None) None 100
         = Inr (db', att, res, [IdCardComparator ''card'' ''CS2024001'' ''John Doe''])
       \<and> verification_method res = ''id_card'')"
proof -
  have v: "verify_student demo_service (s_roll_no demo_student) (s_name demo_student)
     (s_face_embedding demo_student) (s_fingerprint_hash demo_student)
     (req_face_image (demo_request None (Some ''card'') None))
     (req_id_card_image (demo_request None (Some ''card'') None))
     (req_fingerprint_token (demo_request None (Some ''card'') None))
      = (\<lparr> success = False, face_verified = False, face_confidence = 0,
           id_card_verified = False, id_card_confidence = 0.1,
           fingerprint_verified = False, overall_confidence = 0.03,
           verification_method = ''id_card'',
           message = ''Single factor (id_card) verification'',
           anomaly_detected = True,
           anomaly_reason = Some ''Single factor verification failed: id_card'' \<rparr>,
         [IdCardComparator ''card'' ''CS2024001'' ''John Doe''])"
    by (simp add: demo_lookups demo_verify_id_only)
  have "se_is_active \<lparr> se_id = 10, se_is_active = True \<rparr>" by simp
  from mark_attendance_verified [OF demo_context(1) demo_context(2) this demo_context(3)
      demo_lookups(10) v, of None 100]
  have "\<exists>db' att res.
         mark_attendance demo_service (demo_store True [])
           (demo_request None (Some ''card'') None) None 100
         = Inr (db', att, res, [IdCardComparator ''card'' ''CS2024001'' ''John Doe''])
       \<and> verification_method res = ''id_card''"
    by simp
  then show ?thesis
    by (simp add: demo_verify_id_only) (simp add: demo_student_def)
qed


text \<open>
  Claim C3, amended. In \<open>verify_student\<close> the face factor is evaluated (counted, its
  comparator called, its name in the method descriptor) exactly when a non-empty face
  image is supplied and a non-empty face embedding is stored, and the fingerprint factor
  exactly when a non-empty token is supplied and a non-empty hash is stored. The
  ID-document factor is evaluated exactly when a non-empty ID-card image is supplied: it is
  compared with the student's roll number and name, which the function always receives,
  and no enrolled ID-card data is consulted. A factor that is not evaluated has no
  comparator call, keeps \<open>verified = False\<close> and confidence \<open>0\<close> in the result, and puts
  no condition on success, which depends on the evaluated factors alone.
\<close>

theorem verify_student_evaluated_factors:
  "(let face_ran = (truthy fi \<and> truthy sf);
        id_card_ran = truthy ci;
        fingerprint_ran = (truthy ft \<and> truthy sh);
        methods = applicable_methods face_ran id_card_ran fingerprint_ran;
        rf = compare_faces_from_base64 self (value_of sf) (value_of fi);
        ri = validate_id_card self (value_of ci) roll name;
        rp = fingerprint_service_verify self (value_of ft) (value_of sh);
        r = fst (verify_student self roll name sf sh fi ci ft);
        calls = snd (verify_student self roll name sf sh fi ci ft)
    in (''face'' \<in> set methods) = face_ran
     \<and> (''id_card'' \<in> set methods) = id_card_ran
     \<and> (''fingerprint'' \<in> set methods) = fingerprint_ran
     \<and> verification_method r = (if methods = [] then ''none'' else join ''+'' methods)
     \<and> calls = (if face_ran then [FaceComparator (value_of sf) (value_of fi)] else [])
             @ (if id_card_ran then [IdCardComparator (value_of ci) roll name] else [])
             @ (if fingerprint_ran then [FingerprintComparator (value_of ft) (value_of sh)]
                else [])
     \<and> face_verified r = (face_ran \<and> fst rf)
     \<and> face_confidence r = (if face_ran then snd rf else 0)
     \<and> id_card_verified r = (id_card_ran \<and> fst ri)
     \<and> id_card_confidence r = (if id_card_ran then fst (snd ri) else 0)
     \<and> fingerprint_verified r = (fingerprint_ran \<and> fst rp)
     \<and> success r =
         (methods \<noteq> []
          \<and> (if face_ran then fst rf else True)
          \<and> (if id_card_ran then fst ri else True)
          \<and> (if fingerprint_ran then fst rp else True)
          \<and> (if methods = [''face''] then min_face_confidence self \<le> snd rf else True)))"
  by (cases "truthy fi"; cases "truthy sf"; cases "truthy ci"; cases "truthy ft";
      cases "truthy sh";
      simp add: verify_student_unfold Let_def determine_success_other_fields
        determine_success_success applicable_methods_mem;
      simp add: applicable_methods_def)

theorem verify_student_evaluated_factors_witness:
  "verification_method (fst (verify_student demo_service ''CS2024001'' ''John Doe''
       (Some ''E1'') (Some ''H1'') (Some ''face'') None (Some ''token''))) = ''face+fingerprint''
   \<and> snd (verify_student demo_service ''CS2024001'' ''John Doe''
       (Some ''E1'') (Some ''H1'') (Some ''face'') None (Some ''token''))
      = [FaceComparator ''E1'' ''face'', FingerprintComparator ''token'' ''H1'']
   \<and> success (fst (verify_student demo_service ''CS2024001'' ''John Doe''
       (Some ''E1'') (Some ''H1'') (Some ''face'') None (Some ''token'')))
   \<and> snd (verify_student demo_service ''CS2024001'' ''John Doe''
       None (Some ''H1'') (Some ''face'') (Some '''') (Some ''token''))
      = [FingerprintComparator ''token'' ''H1'']"
  using verify_student_evaluated_factors [of "Some ''face''" "Some ''E1''" None
      "Some ''token''" "Some ''H1''" demo_service "''CS2024001''" "''John Doe''"]
    verify_student_evaluated_factors [of "Some ''face''" None "Some ''''"
      "Some ''token''" "Some ''H1''" demo_service "''CS2024001''" "''John Doe''"]
  by (simp add: Let_def applicable_methods_def demo_service_def)


end
